theory Spec2Isabelle
  imports Main "HOL-Library.Word"
begin

section \<open>Files and command-line options\<close>

text \<open>
  The operations of \<^verbatim>\<open>tools/scylla-sstable.cc\<close> throw C++ exceptions; the model
  returns them as values. A file system is a map from path to content.
\<close>

datatype exception =
    invalid_argument string
  | runtime_error string
  | bad_any_cast string
  | system_error string

type_synonym fs = "string \<rightharpoonup> string"

definition file_exists :: "fs \<Rightarrow> string \<Rightarrow> bool" where
  "file_exists files name = (files name \<noteq> None)"

text \<open>
  \<^verbatim>\<open>open_file_dma(name, flags)\<close>: the flags are those of \<^verbatim>\<open>open(2)\<close>. A missing file is
  made only with \<open>create\<close>; an existing file is refused only with \<open>create\<close> and
  \<open>exclusive\<close> together, and emptied only with \<open>truncate\<close>.
\<close>

datatype open_flags = ro | wo | rw | create | truncate | exclusive

definition open_file_dma :: "string \<Rightarrow> open_flags list \<Rightarrow> fs \<Rightarrow> exception + fs" where
  "open_file_dma name flags files =
     (case files name of
        None \<Rightarrow>
          if create \<in> set flags then Inr (files(name \<mapsto> []))
          else Inl (system_error ''No such file or directory'')
      | Some old \<Rightarrow>
          if create \<in> set flags \<and> exclusive \<in> set flags then Inl (system_error ''File exists'')
          else if truncate \<in> set flags then Inr (files(name \<mapsto> []))
          else Inr files)"

text \<open>What an opened file holds: nothing when it was just made.\<close>

definition file_content :: "fs \<Rightarrow> string \<Rightarrow> string" where
  "file_content files name = (case files name of None \<Rightarrow> [] | Some content \<Rightarrow> content)"

text \<open>
  \<^verbatim>\<open>bpo::variables_map\<close>: the options given on the command line (and those with a
  default), each a string or a 64-bit integer. \<^verbatim>\<open>vm.count(k)\<close> is 1 when \<open>k\<close> is there;
  \<^verbatim>\<open>vm[k].as<T>()\<close> throws when it is not, or holds another type.
\<close>

datatype option_value = Str string | I64 "64 word"

type_synonym variables_map = "string \<rightharpoonup> option_value"

definition vm_count :: "variables_map \<Rightarrow> string \<Rightarrow> nat" where
  "vm_count vm k = (case vm k of None \<Rightarrow> 0 | Some _ \<Rightarrow> 1)"

definition as_string :: "variables_map \<Rightarrow> string \<Rightarrow> exception + string" where
  "as_string vm k = (case vm k of Some (Str s) \<Rightarrow> Inr s | _ \<Rightarrow> Inl (bad_any_cast k))"

definition as_int64 :: "variables_map \<Rightarrow> string \<Rightarrow> exception + 64 word" where
  "as_int64 vm k = (case vm k of Some (I64 i) \<Rightarrow> Inr i | _ \<Rightarrow> Inl (bad_any_cast k))"

section \<open>The write operation\<close>

datatype mutation_fragment_stream_validation_level =
  level_partition_region | level_token | level_partition_key | level_clustering_key

definition valid_validation_levels ::
    "(string \<times> mutation_fragment_stream_validation_level) list" where
  "valid_validation_levels =
     [(''partition_region'', level_partition_region), (''token'', level_token),
      (''partition_key'', level_partition_key), (''clustering_key'', level_clustering_key)]"

text \<open>
  \<^verbatim>\<open>write_operation\<close>. Two collaborators are not part of the tool and are parameters:
  \<open>filename dir generation\<close> is \<^verbatim>\<open>sstables::sstable::filename\<close> for the Data component of
  the schema's table, and \<open>write_components\<close> stands for everything after the checks
  (opening the input file, the parser, the validating writer): it is the only step
  that writes.
\<close>

definition write_operation ::
    "(string \<Rightarrow> 64 word \<Rightarrow> string) \<Rightarrow>
     (mutation_fragment_stream_validation_level \<Rightarrow> string \<Rightarrow> string \<Rightarrow> 64 word \<Rightarrow> fs \<Rightarrow> exception + fs) \<Rightarrow>
     'sst list \<Rightarrow> variables_map \<Rightarrow> fs \<Rightarrow> exception + fs" where
  "write_operation filename write_components sstables vm files =
     (if sstables \<noteq> [] then
        Inl (invalid_argument ''error: write operation does not operate on input sstables'')
      else if vm_count vm ''input-file'' = 0 then
        Inl (invalid_argument ''error: missing required option '--input-file' '')
      else
       (case as_string vm ''validation-level'' of
          Inl e \<Rightarrow> Inl e
        | Inr vl_name \<Rightarrow>
           (case map_of valid_validation_levels vl_name of
              None \<Rightarrow> Inl (invalid_argument (''error: invalid validation-level '' @ vl_name))
            | Some validation_level \<Rightarrow>
               (case as_string vm ''input-file'' of
                  Inl e \<Rightarrow> Inl e
                | Inr input_file \<Rightarrow>
                   (case as_string vm ''output-dir'' of
                      Inl e \<Rightarrow> Inl e
                    | Inr output_dir \<Rightarrow>
                       (if vm_count vm ''generation'' = 0 then
                          Inl (invalid_argument ''error: missing required option '--generation' '')
                        else
                         (case as_int64 vm ''generation'' of
                            Inl e \<Rightarrow> Inl e
                          | Inr generation \<Rightarrow>
                             (let sst_name = filename output_dir generation in
                              if file_exists files sst_name then
                                Inl (runtime_error (''error: cannot create output sstable '' @ sst_name
                                       @ '', file already exists''))
                              else write_components validation_level input_file output_dir
                                     generation files))))))))"

text \<open>The four preconditions of the write operation, on the command line as given.\<close>

definition write_precondition_violated ::
    "(string \<Rightarrow> 64 word \<Rightarrow> string) \<Rightarrow> 'sst list \<Rightarrow> variables_map \<Rightarrow> fs \<Rightarrow> bool" where
  "write_precondition_violated filename sstables vm files =
     (sstables \<noteq> [] \<or> vm ''input-file'' = None \<or> vm ''generation'' = None \<or>
      (case (vm ''output-dir'', vm ''generation'') of
         (Some (Str output_dir), Some (I64 generation)) \<Rightarrow>
            file_exists files (filename output_dir generation)
       | _ \<Rightarrow> False))"

section \<open>The decompress operation\<close>

text \<open>
  What \<^verbatim>\<open>decompress_operation\<close> asks of an sstable: its file name, whether it is
  compressed, and its data stream, which hands out decompressed chunks and may then
  fail (a corrupt chunk, a read error).
\<close>

record sstable =
  get_filename :: string
  get_compression :: bool
  data_stream :: "string list \<times> exception option"

text \<open>
  The body of the loop of \<^verbatim>\<open>decompress_operation\<close>, for one sstable. The output file is
  opened with \<^verbatim>\<open>open_flags::wo | open_flags::create\<close>. The parameter \<open>file_output_stream\<close>
  is seastar's: \<open>file_output_stream old data\<close> is what a file that held \<open>old\<close> holds once
  the stream has written \<open>data\<close> from its start and is closed. The deferred
  \<^verbatim>\<open>ostream.close()\<close> runs on every path, so the chunks consumed before an error are
  written; nothing on any path removes the file.
\<close>

definition decompress_sstable ::
    "(string \<Rightarrow> string \<Rightarrow> string) \<Rightarrow> sstable \<Rightarrow> fs \<Rightarrow> exception option \<times> fs" where
  "decompress_sstable file_output_stream sst files =
     (if \<not> get_compression sst then (None, files)
      else
        (let output_filename = get_filename sst @ ''.decompressed'' in
         case open_file_dma output_filename [wo, create] files of
           Inl e \<Rightarrow> (Some e, files)
         | Inr opened \<Rightarrow>
            (let old = file_content opened output_filename;
                 written = file_output_stream old (concat (fst (data_stream sst)))
             in (snd (data_stream sst), opened(output_filename \<mapsto> written)))))"

fun decompress_sstables ::
    "(string \<Rightarrow> string \<Rightarrow> string) \<Rightarrow> sstable list \<Rightarrow> fs \<Rightarrow> exception option \<times> fs" where
  "decompress_sstables file_output_stream [] files = (None, files)"
| "decompress_sstables file_output_stream (sst # sstables) files =
     (case decompress_sstable file_output_stream sst files of
        (Some e, files') \<Rightarrow> (Some e, files')
      | (None, files') \<Rightarrow> decompress_sstables file_output_stream sstables files')"

definition decompress_operation ::
    "(string \<Rightarrow> string \<Rightarrow> string) \<Rightarrow> sstable list \<Rightarrow> fs \<Rightarrow> exception option \<times> fs" where
  "decompress_operation file_output_stream sstables files =
     (if sstables = [] then
        (Some (runtime_error ''error: no sstables specified on the command line''), files)
      else decompress_sstables file_output_stream sstables files)"

text \<open>
  A file output stream that replaces the bytes it writes and keeps the rest of a
  longer file: plain \<^verbatim>\<open>pwrite(2)\<close> from offset 0. Used where a concrete stream is needed.
\<close>

definition pwrite_stream :: "string \<Rightarrow> string \<Rightarrow> string" where
  "pwrite_stream old data = data @ drop (length data) old"

section \<open>The writetime histogram\<close>

datatype bucket = years | months | weeks | days | hours

text \<open>
  \<^verbatim>\<open>std::chrono::duration_cast\<close> between integer durations divides and multiplies by the
  ratio of the periods, and C++ integer division truncates towards zero. The widths
  are those of \<^verbatim>\<open>std::chrono\<close>, in microseconds: a year is 365.2425 days, a month a
  twelfth of it.
\<close>

definition cxx_div :: "int \<Rightarrow> int \<Rightarrow> int" where
  "cxx_div a b = (if (a < 0) = (b < 0) then \<bar>a\<bar> div \<bar>b\<bar> else - (\<bar>a\<bar> div \<bar>b\<bar>))"

fun bucket_microseconds :: "bucket \<Rightarrow> int" where
  "bucket_microseconds years = 31556952000000"
| "bucket_microseconds months = 2629746000000"
| "bucket_microseconds weeks = 604800000000"
| "bucket_microseconds days = 86400000000"
| "bucket_microseconds hours = 3600000000"

definition timestamp_bucket :: "bucket \<Rightarrow> int \<Rightarrow> int" where
  "timestamp_bucket b ts = cxx_div ts (bucket_microseconds b) * bucket_microseconds b"

text \<open>
  \<^verbatim>\<open>std::map<api::timestamp_type, uint64_t>\<close>: the entries in ascending key order, one
  per key. \<open>map_find\<close>, \<open>map_emplace\<close> and \<open>map_increment\<close> are \<^verbatim>\<open>find\<close>, \<^verbatim>\<open>emplace\<close>
  (which leaves an existing entry alone) and \<^verbatim>\<open>++it->second\<close>. Timestamps are the
  signed values of \<^verbatim>\<open>int64_t\<close>; the counters are \<^verbatim>\<open>uint64_t\<close> and wrap.
\<close>

type_synonym histogram = "(int \<times> 64 word) list"

definition map_find :: "int \<Rightarrow> histogram \<Rightarrow> 64 word option" where
  "map_find k m = map_of m k"

fun map_emplace :: "int \<Rightarrow> 64 word \<Rightarrow> histogram \<Rightarrow> histogram" where
  "map_emplace k v [] = [(k, v)]"
| "map_emplace k v ((k', v') # m) =
     (if k < k' then (k, v) # (k', v') # m
      else if k = k' then (k', v') # m
      else (k', v') # map_emplace k v m)"

fun map_increment :: "int \<Rightarrow> histogram \<Rightarrow> histogram" where
  "map_increment k [] = []"
| "map_increment k ((k', v') # m) =
     (if k = k' then (k', v' + 1) # m else (k', v') # map_increment k m)"

record writetime_histogram_collecting_consumer =
  w_bucket :: bucket
  w_histogram :: histogram
  w_partitions :: "64 word"
  w_rows :: "64 word"
  w_cells :: "64 word"
  w_timestamps :: "64 word"

definition collect_timestamp ::
    "int \<Rightarrow> writetime_histogram_collecting_consumer \<Rightarrow> writetime_histogram_collecting_consumer" where
  "collect_timestamp ts0 c =
     (let ts = timestamp_bucket (w_bucket c) ts0;
          found = (case map_find ts (w_histogram c) of
                     None \<Rightarrow> map_emplace ts 0 (w_histogram c)
                   | Some _ \<Rightarrow> w_histogram c)
      in c\<lparr>w_timestamps := w_timestamps c + 1, w_histogram := map_increment ts found\<rparr>)"

text \<open>
  A run of the consumer up to the end of the stream: the consume functions call
  \<^verbatim>\<open>collect_timestamp\<close> once for every timestamp they meet, in stream order. The
  constructor leaves the histogram empty and the counters at 0.
\<close>

definition new_histogram_consumer :: "bucket \<Rightarrow> writetime_histogram_collecting_consumer" where
  "new_histogram_consumer b =
     \<lparr>w_bucket = b, w_histogram = [], w_partitions = 0, w_rows = 0, w_cells = 0,
      w_timestamps = 0\<rparr>"

definition collect_timestamps ::
    "int list \<Rightarrow> writetime_histogram_collecting_consumer \<Rightarrow> writetime_histogram_collecting_consumer" where
  "collect_timestamps tss c = fold collect_timestamp tss c"

text \<open>\<^verbatim>\<open>fmt::format("{}", n)\<close> for an integer: decimal digits, a minus sign when negative.\<close>

fun format_nat :: "nat \<Rightarrow> string" where
  "format_nat n =
     (if n < 10 then [char_of (48 + n)]
      else format_nat (n div 10) @ [char_of (48 + n mod 10)])"

definition format_int :: "int \<Rightarrow> string" where
  "format_int i = (if i < 0 then CHR ''-'' # format_nat (nat (- i)) else format_nat (nat i))"

text \<open>
  The text \<^verbatim>\<open>on_end_of_stream\<close> writes for non-empty arrays: the first element after
  \<^verbatim>\<open>"\n  "\<close>, every later one after \<^verbatim>\<open>",\n  "\<close>.
\<close>

fun json_array_lines :: "string list \<Rightarrow> string" where
  "json_array_lines [] = []"
| "json_array_lines (x # xs) =
     ([CHR 0x0A] @ ''  '' @ x) @ concat (map (\<lambda>y. '','' @ [CHR 0x0A] @ ''  '' @ y) xs)"

definition histogram_document :: "int list \<Rightarrow> 64 word list \<Rightarrow> string" where
  "histogram_document buckets counts =
     ''{'' @ [CHR 0x0A, CHR 0x22] @ ''buckets'' @ [CHR 0x22] @ '': [''
       @ json_array_lines (map format_int buckets) @ [CHR 0x0A] @ '']''
       @ '','' @ [CHR 0x0A, CHR 0x22] @ ''counts'' @ [CHR 0x22] @ '': [''
       @ json_array_lines (map (\<lambda>c. format_nat (unat c)) counts) @ [CHR 0x0A] @ '']''
       @ [CHR 0x0A] @ ''}''"

text \<open>
  \<^verbatim>\<open>on_end_of_stream\<close> of the histogram consumer, on the file system. With an empty
  histogram it returns before any file is opened.
\<close>

definition histogram_on_end_of_stream ::
    "(string \<Rightarrow> string \<Rightarrow> string) \<Rightarrow> writetime_histogram_collecting_consumer \<Rightarrow> fs
       \<Rightarrow> exception + fs" where
  "histogram_on_end_of_stream file_output_stream c files =
     (if w_histogram c = [] then Inr files
      else
        (let filename = ''histogram.json'' in
         case open_file_dma filename [wo, create] files of
           Inl e \<Rightarrow> Inl e
         | Inr opened \<Rightarrow>
            (let old = file_content opened filename;
                 document = histogram_document (map fst (w_histogram c)) (map snd (w_histogram c))
             in Inr (opened(filename \<mapsto> file_output_stream old document)))))"

text \<open>The two arrays of the document: the keys of the map and their counters, in map order.\<close>

definition histogram_buckets :: "writetime_histogram_collecting_consumer \<Rightarrow> int list" where
  "histogram_buckets c = map fst (w_histogram c)"

definition histogram_counts :: "writetime_histogram_collecting_consumer \<Rightarrow> 64 word list" where
  "histogram_counts c = map snd (w_histogram c)"

section \<open>The fragment stream\<close>

text \<open>
  The fragment types belong to the storage engine; the tool reads and builds them
  through their accessors and constructors. Keys are their serialized bytes,
  \<^verbatim>\<open>api::timestamp_type\<close> is \<^verbatim>\<open>int64_t\<close>, and a \<^verbatim>\<open>gc_clock\<close> time point or duration is
  its count of seconds.
\<close>

type_synonym bytes = string
type_synonym timestamp_type = "64 word"
type_synonym gc_clock = int

text \<open>
  Modelled from the spec: the tombstone class is not in the tool's file. "A tombstone
  is \<open>{timestamp, deletion_time}\<close> or the empty tombstone"; its \<^verbatim>\<open>operator bool\<close> is false
  for the empty one only.
\<close>

datatype tombstone = empty_tombstone | Tombstone timestamp_type gc_clock

fun tombstone_bool :: "tombstone \<Rightarrow> bool" where
  "tombstone_bool empty_tombstone = False"
| "tombstone_bool (Tombstone ts dt) = True"

text \<open>
  Modelled from the spec: a row tombstone is a tombstone "with optional shadowable
  component". \<^verbatim>\<open>row_tombstone(t)\<close> sets both parts to \<open>t\<close>; the row tombstone is
  empty when both parts are.
\<close>

record row_tombstone =
  regular :: tombstone
  shadowable :: tombstone

definition make_row_tombstone :: "tombstone \<Rightarrow> row_tombstone" where
  "make_row_tombstone t = \<lparr>regular = t, shadowable = t\<rparr>"

definition row_tombstone_bool :: "row_tombstone \<Rightarrow> bool" where
  "row_tombstone_bool t = (tombstone_bool (regular t) \<or> tombstone_bool (shadowable t))"

text \<open>
  Modelled from the spec: a row marker is missing or \<open>{timestamp, optional (ttl, expiry)}\<close>;
  the engine's marker can also be dead, which the dumper's \<^verbatim>\<open>is_live()\<close> test tells
  apart.
\<close>

datatype row_marker =
    missing_marker
  | live_marker timestamp_type
  | expiring_marker timestamp_type gc_clock gc_clock
  | dead_marker timestamp_type gc_clock

fun is_missing :: "row_marker \<Rightarrow> bool" where
  "is_missing missing_marker = True"
| "is_missing _ = False"

fun marker_is_live :: "row_marker \<Rightarrow> bool" where
  "marker_is_live (live_marker ts) = True"
| "marker_is_live (expiring_marker ts ttl expiry) = True"
| "marker_is_live _ = False"

fun is_expiring :: "row_marker \<Rightarrow> bool" where
  "is_expiring (expiring_marker ts ttl expiry) = True"
| "is_expiring _ = False"

text \<open>\<^verbatim>\<open>missing_timestamp\<close> is the least \<^verbatim>\<open>int64_t\<close>.\<close>

definition missing_timestamp :: timestamp_type where
  "missing_timestamp = 0x8000000000000000"

fun marker_timestamp :: "row_marker \<Rightarrow> timestamp_type" where
  "marker_timestamp missing_marker = missing_timestamp"
| "marker_timestamp (live_marker ts) = ts"
| "marker_timestamp (expiring_marker ts ttl expiry) = ts"
| "marker_timestamp (dead_marker ts dt) = ts"

fun marker_ttl :: "row_marker \<Rightarrow> gc_clock" where
  "marker_ttl (expiring_marker ts ttl expiry) = ttl"
| "marker_ttl _ = 0"

fun marker_expiry :: "row_marker \<Rightarrow> gc_clock" where
  "marker_expiry (expiring_marker ts ttl expiry) = expiry"
| "marker_expiry (dead_marker ts dt) = dt"
| "marker_expiry _ = 0"

text \<open>
  Cells. An atomic cell is live or dead; in a column of a counter type a live cell is
  a counter update or a set of shards. A cell of a multi-cell column is a collection
  mutation: an optional tombstone and the sub-cells by key. The views of the source
  (\<^verbatim>\<open>atomic_cell_view\<close>, \<^verbatim>\<open>counter_cell_view\<close>) read raw bytes by the column's type; the
  accessors below give a fixed value where cell and type do not match.
\<close>

record counter_shard =
  shard_id :: string
  shard_value :: "64 word"
  shard_logical_clock :: "64 word"

datatype atomic_cell =
    live_cell timestamp_type bytes "(gc_clock \<times> gc_clock) option"
  | dead_cell timestamp_type gc_clock
  | counter_update_cell timestamp_type "64 word"
  | counter_shards_cell timestamp_type "counter_shard list"

fun cell_is_live :: "atomic_cell \<Rightarrow> bool" where
  "cell_is_live (dead_cell ts dt) = False"
| "cell_is_live _ = True"

fun cell_timestamp :: "atomic_cell \<Rightarrow> timestamp_type" where
  "cell_timestamp (live_cell ts v te) = ts"
| "cell_timestamp (dead_cell ts dt) = ts"
| "cell_timestamp (counter_update_cell ts d) = ts"
| "cell_timestamp (counter_shards_cell ts shards) = ts"

fun is_counter_update :: "atomic_cell \<Rightarrow> bool" where
  "is_counter_update (counter_update_cell ts d) = True"
| "is_counter_update _ = False"

fun counter_update_value :: "atomic_cell \<Rightarrow> 64 word" where
  "counter_update_value (counter_update_cell ts d) = d"
| "counter_update_value _ = 0"

fun cell_shards :: "atomic_cell \<Rightarrow> counter_shard list" where
  "cell_shards (counter_shards_cell ts shards) = shards"
| "cell_shards _ = []"

fun is_live_and_has_ttl :: "atomic_cell \<Rightarrow> bool" where
  "is_live_and_has_ttl (live_cell ts v (Some te)) = True"
| "is_live_and_has_ttl _ = False"

fun cell_ttl :: "atomic_cell \<Rightarrow> gc_clock" where
  "cell_ttl (live_cell ts v (Some (ttl, expiry))) = ttl"
| "cell_ttl _ = 0"

fun cell_expiry :: "atomic_cell \<Rightarrow> gc_clock" where
  "cell_expiry (live_cell ts v (Some (ttl, expiry))) = expiry"
| "cell_expiry _ = 0"

fun cell_value :: "atomic_cell \<Rightarrow> bytes" where
  "cell_value (live_cell ts v te) = v"
| "cell_value _ = []"

fun cell_deletion_time :: "atomic_cell \<Rightarrow> gc_clock" where
  "cell_deletion_time (dead_cell ts dt) = dt"
| "cell_deletion_time _ = 0"

record collection_mutation_view_description =
  mv_tomb :: tombstone
  mv_cells :: "(bytes \<times> atomic_cell) list"

datatype atomic_cell_or_collection =
    atomic atomic_cell
  | collection collection_mutation_view_description

fun as_atomic_cell :: "atomic_cell_or_collection \<Rightarrow> atomic_cell" where
  "as_atomic_cell (atomic c) = c"
| "as_atomic_cell (collection mv) = dead_cell missing_timestamp 0"

fun as_collection_mutation :: "atomic_cell_or_collection \<Rightarrow> collection_mutation_view_description" where
  "as_collection_mutation (collection mv) = mv"
| "as_collection_mutation (atomic c) = \<lparr>mv_tomb = empty_tombstone, mv_cells = []\<rparr>"

text \<open>A row: its cells by column id, in ascending order of the ids (\<^verbatim>\<open>for_each_cell\<close>).\<close>

type_synonym column_id = nat
type_synonym row = "(column_id \<times> atomic_cell_or_collection) list"

record decorated_key =
  dk_token :: "64 word"
  dk_key :: bytes

datatype bound_weight = before_all_prefixed | equal | after_all_prefixed

text \<open>\<^verbatim>\<open>static_cast<int>(bound_weight)\<close>.\<close>

fun bound_weight_int :: "bound_weight \<Rightarrow> 32 word" where
  "bound_weight_int before_all_prefixed = - 1"
| "bound_weight_int equal = 0"
| "bound_weight_int after_all_prefixed = 1"

record position_in_partition =
  get_bound_weight :: bound_weight
  pos_key :: "bytes option"

record partition_start =
  ps_key :: decorated_key
  partition_tombstone :: tombstone

record clustering_row =
  cr_key :: bytes
  cr_tomb :: row_tombstone
  cr_marker :: row_marker
  cr_cells :: row

record range_tombstone_change =
  rtc_position :: position_in_partition
  rtc_tombstone :: tombstone

datatype mutation_fragment_v2 =
    Partition_start partition_start
  | Static_row row
  | Clustering_row clustering_row
  | Range_tombstone_change range_tombstone_change
  | Partition_end

fun is_partition_start :: "mutation_fragment_v2 \<Rightarrow> bool" where
  "is_partition_start (Partition_start ps) = True"
| "is_partition_start _ = False"

fun is_end_of_partition :: "mutation_fragment_v2 \<Rightarrow> bool" where
  "is_end_of_partition Partition_end = True"
| "is_end_of_partition _ = False"

section \<open>The reader driver\<close>

datatype stop_iteration = no | yes

text \<open>
  \<^verbatim>\<open>sstable_consumer\<close>: the virtual functions over the consumer's own state \<open>'c\<close>. The
  five \<^verbatim>\<open>consume\<close> overloads are one function of the fragment, as
  \<^verbatim>\<open>mutation_fragment_v2::consume\<close> dispatches on the kind. \<open>on_new_sstable\<close> gets the
  file name of the sstable, or \<open>None\<close> for \<^verbatim>\<open>nullptr\<close>.
\<close>

record 'c sstable_consumer =
  on_start_of_stream :: "'c \<Rightarrow> 'c"
  on_new_sstable :: "string option \<Rightarrow> 'c \<Rightarrow> stop_iteration \<times> 'c"
  consume :: "mutation_fragment_v2 \<Rightarrow> 'c \<Rightarrow> stop_iteration \<times> 'c"
  on_end_of_sstable :: "'c \<Rightarrow> stop_iteration \<times> 'c"
  on_end_of_stream :: "'c \<Rightarrow> 'c"

text \<open>
  A reader is the list of the fragments it has yet to yield: \<^verbatim>\<open>is_end_of_stream()\<close> is
  \<open>rd = []\<close> (the reader knows its end once the last fragment is popped), \<^verbatim>\<open>peek()\<close> the
  head, \<^verbatim>\<open>rd()\<close> pops it. \<^verbatim>\<open>consume_pausable\<close> pops fragments
  and hands each to the consumer until one answers \<open>yes\<close> or the reader is at its end.
\<close>

type_synonym reader = "mutation_fragment_v2 list"

fun consume_pausable ::
    "(mutation_fragment_v2 \<Rightarrow> 's \<Rightarrow> stop_iteration \<times> 's) \<Rightarrow> reader \<Rightarrow> 's \<Rightarrow> reader \<times> 's" where
  "consume_pausable f [] s = ([], s)"
| "consume_pausable f (mf # rd) s =
     (case f mf s of
        (yes, s') \<Rightarrow> (rd, s')
      | (no, s') \<Rightarrow> consume_pausable f rd s')"

text \<open>
  \<^verbatim>\<open>next_partition()\<close>, the reader's native skip: it drops the rest of the current
  partition and does nothing when the reader stands at a partition start.
\<close>

definition next_partition :: "reader \<Rightarrow> reader" where
  "next_partition rd = dropWhile (\<lambda>mf. \<not> is_partition_start mf) rd"

text \<open>
  The loop \<^verbatim>\<open>while ((mfopt = rd().get()) && !mfopt->is_end_of_partition());\<close> of the
  \<^verbatim>\<open>no_skips\<close> branch: pop until a partition end was popped or the reader is empty.
\<close>

fun drain_partition :: "reader \<Rightarrow> reader" where
  "drain_partition [] = []"
| "drain_partition (mf # rd) = (if is_end_of_partition mf then rd else drain_partition rd)"

text \<open>
  \<^verbatim>\<open>consumer_wrapper\<close> with the filter of \<^verbatim>\<open>consume_reader\<close>. The filter is set when the
  partition set is not empty, and writes \<open>skip_partition\<close>, which it captures by
  reference: the state of the wrapped consumer is the flag and the consumer's state.
\<close>

definition consumer_wrapper ::
    "'c sstable_consumer \<Rightarrow> decorated_key list \<Rightarrow> mutation_fragment_v2 \<Rightarrow> bool \<times> 'c
       \<Rightarrow> stop_iteration \<times> (bool \<times> 'c)" where
  "consumer_wrapper consumer partitions mf s =
     (case mf of
        Partition_start ps \<Rightarrow>
          if partitions \<noteq> [] then
            (let pass = (ps_key ps \<in> set partitions) in
             if \<not> pass then (yes, (\<not> pass, snd s))
             else (case consume consumer mf (snd s) of (r, c') \<Rightarrow> (r, (\<not> pass, c'))))
          else (case consume consumer mf (snd s) of (r, c') \<Rightarrow> (r, (fst s, c')))
      | _ \<Rightarrow> (case consume consumer mf (snd s) of (r, c') \<Rightarrow> (r, (fst s, c'))))"

text \<open>What one round of the \<^verbatim>\<open>while\<close> loop leaves after \<^verbatim>\<open>consume_pausable\<close>.\<close>

definition paused ::
    "'c sstable_consumer \<Rightarrow> decorated_key list \<Rightarrow> reader \<Rightarrow> 'c \<Rightarrow> reader \<times> (bool \<times> 'c)" where
  "paused consumer partitions rd c =
     consume_pausable (consumer_wrapper consumer partitions) rd (False, c)"

definition skip_to_next_partition :: "bool \<Rightarrow> reader \<Rightarrow> reader" where
  "skip_to_next_partition no_skips rd = (if no_skips then drain_partition rd else next_partition rd)"

lemma consume_pausable_length: "length (fst (consume_pausable f rd s)) \<le> length rd"
proof (induction rd arbitrary: s)
  case Nil
  then show ?case by simp
next
  case (Cons mf rd)
  obtain r s' where fs: "f mf s = (r, s')" by (cases "f mf s")
  show ?case
  proof (cases r)
    case no
    then show ?thesis using Cons.IH [of s'] fs by simp
  next
    case yes
    then show ?thesis using fs by simp
  qed
qed

lemma paused_shorter: "rd \<noteq> [] \<Longrightarrow> length (fst (paused consumer partitions rd c)) < length rd"
proof (cases rd)
  case Nil
  then show "rd \<noteq> [] \<Longrightarrow> ?thesis" by simp
next
  case (Cons mf rd')
  obtain r s' where fs: "consumer_wrapper consumer partitions mf (False, c) = (r, s')"
    by (cases "consumer_wrapper consumer partitions mf (False, c)")
  have "length (fst (consume_pausable (consumer_wrapper consumer partitions) rd' s')) \<le> length rd'"
    by (rule consume_pausable_length)
  then show ?thesis using Cons fs by (cases r) (simp_all add: paused_def)
qed

lemma drain_partition_length: "length (drain_partition rd) \<le> length rd"
  by (induction rd) auto

lemma skip_to_next_partition_length: "length (skip_to_next_partition no_skips rd) \<le> length rd"
  by (simp add: skip_to_next_partition_def next_partition_def drain_partition_length
      length_dropWhile_le)

text \<open>
  The \<^verbatim>\<open>while (!rd.is_end_of_stream())\<close> loop of \<^verbatim>\<open>consume_reader\<close>; a \<^verbatim>\<open>break\<close> returns
  the consumer as it is.
\<close>

function consume_reader_loop ::
    "'c sstable_consumer \<Rightarrow> decorated_key list \<Rightarrow> bool \<Rightarrow> reader \<Rightarrow> 'c \<Rightarrow> 'c" where
  "consume_reader_loop consumer partitions no_skips rd c =
     (if rd = [] then c
      else
        (let rd1 = fst (paused consumer partitions rd c);
             skip_partition = fst (snd (paused consumer partitions rd c));
             c1 = snd (snd (paused consumer partitions rd c))
         in
           if rd1 \<noteq> [] \<and> \<not> skip_partition then
             (if \<not> is_partition_start (hd rd1) then c1
              else if fst (consume consumer Partition_end c1) = yes then
                snd (consume consumer Partition_end c1)
              else
                consume_reader_loop consumer partitions no_skips
                  (skip_to_next_partition no_skips rd1) (snd (consume consumer Partition_end c1)))
           else if skip_partition then
             consume_reader_loop consumer partitions no_skips
               (skip_to_next_partition no_skips rd1) c1
           else consume_reader_loop consumer partitions no_skips rd1 c1))"
  by pat_completeness auto
termination
proof (relation "measure (\<lambda>(consumer, partitions, no_skips, rd, c). length rd)")
  show "wf (measure (\<lambda>(consumer, partitions, no_skips, rd, c). length rd))"
    by simp
next
  fix consumer :: "'c sstable_consumer" and partitions no_skips rd c rd1 skip_partition c1
  assume ne: "rd \<noteq> []" and rd1: "rd1 = fst (paused consumer partitions rd c)"
  have lt: "length rd1 < length rd"
    unfolding rd1 using ne by (rule paused_shorter)
  have le: "length (skip_to_next_partition no_skips rd1) \<le> length rd1"
    by (rule skip_to_next_partition_length)
  show "((consumer, partitions, no_skips, skip_to_next_partition no_skips rd1,
          snd (consume consumer Partition_end c1)),
         consumer, partitions, no_skips, rd, c)
        \<in> measure (\<lambda>(consumer, partitions, no_skips, rd, c). length rd)"
    using lt le by simp
  show "((consumer, partitions, no_skips, skip_to_next_partition no_skips rd1, c1),
         consumer, partitions, no_skips, rd, c)
        \<in> measure (\<lambda>(consumer, partitions, no_skips, rd, c). length rd)"
    using lt le by simp
  show "((consumer, partitions, no_skips, rd1, c1), consumer, partitions, no_skips, rd, c)
        \<in> measure (\<lambda>(consumer, partitions, no_skips, rd, c). length rd)"
    using lt by simp
qed

definition consume_reader ::
    "reader \<Rightarrow> 'c sstable_consumer \<Rightarrow> string option \<Rightarrow> decorated_key list \<Rightarrow> bool \<Rightarrow> 'c
       \<Rightarrow> stop_iteration \<times> 'c" where
  "consume_reader rd consumer sst partitions no_skips c =
     (case on_new_sstable consumer sst c of
        (yes, c') \<Rightarrow> on_end_of_sstable consumer c'
      | (no, c') \<Rightarrow>
          on_end_of_sstable consumer (consume_reader_loop consumer partitions no_skips rd c'))"

text \<open>
  A consumer that records the calls it gets, and answers each \<^verbatim>\<open>consume\<close> as
  \<open>answer\<close> says; it answers \<open>no\<close> to the calls at the bounds of the sstable.
\<close>

datatype consumer_call =
    called_on_start_of_stream
  | called_on_new_sstable "string option"
  | called_consume mutation_fragment_v2
  | called_on_end_of_sstable
  | called_on_end_of_stream

definition recording_consumer ::
    "(mutation_fragment_v2 \<Rightarrow> stop_iteration) \<Rightarrow> consumer_call list sstable_consumer" where
  "recording_consumer answer =
     \<lparr>on_start_of_stream = (\<lambda>calls. calls @ [called_on_start_of_stream]),
      on_new_sstable = (\<lambda>sst calls. (no, calls @ [called_on_new_sstable sst])),
      consume = (\<lambda>mf calls. (answer mf, calls @ [called_consume mf])),
      on_end_of_sstable = (\<lambda>calls. (no, calls @ [called_on_end_of_sstable])),
      on_end_of_stream = (\<lambda>calls. calls @ [called_on_end_of_stream])\<rparr>"

section \<open>The schema and the engine's functions\<close>

datatype column_kind = partition_key | clustering_key | static_column | regular_column

text \<open>
  A data type, as far as the tool looks at it: whether it is a counter, its text form
  of a value and back (\<^verbatim>\<open>from_string\<close> throws on a bad text: \<open>None\<close>), and what
  \<^verbatim>\<open>dynamic_cast\<close> finds: a collection with the types of its keys and values, a tuple
  (a user type when the flag is set) with the types of its fields, or neither.
\<close>

datatype data_type =
  Data_type (is_counter: bool) (type_to_string: "bytes \<Rightarrow> string")
    (type_from_string: "string \<Rightarrow> bytes option") (type_impl: type_impl)
and type_impl =
    plain_type_impl
  | collection_type_impl data_type data_type
  | tuple_type_impl bool "data_type list"

fun is_collection :: "data_type \<Rightarrow> bool" where
  "is_collection (Data_type c ts fs (collection_type_impl kt vt)) = True"
| "is_collection _ = False"

fun is_user_type :: "data_type \<Rightarrow> bool" where
  "is_user_type (Data_type c ts fs (tuple_type_impl user field_types)) = user"
| "is_user_type _ = False"

record column_definition =
  name_as_text :: string
  kind :: column_kind
  col_id :: column_id
  column_type :: data_type
  is_atomic :: bool

text \<open>
  What the tool calls and does not define: the schema's look-ups, the partitioner,
  the text forms of keys and tokens, the hex and time codecs, number input, and the
  merge rules of the storage engine. They are parameters of the model.
  \<^item> \<open>get_column_definition\<close>, \<open>column_at\<close>: the schema's columns by name (\<open>None\<close> for
    \<^verbatim>\<open>nullptr\<close>) and by kind and id;
  \<^item> \<open>decorate_key\<close>: \<^verbatim>\<open>dht::decorate_key(schema, pkey)\<close>;
  \<^item> \<open>partition_key_text\<close>, \<open>clustering_key_text\<close>, \<open>token_text\<close>: \<^verbatim>\<open>fmt::format("{}", _)\<close>
    of a key with its schema and of a token;
  \<^item> \<open>from_hex\<close>, \<open>timestamp_from_string\<close> (milliseconds): \<open>None\<close> where they throw;
  \<^item> \<open>gmtime_text\<close>: \<^verbatim>\<open>fmt::format("{:%F %T}", fmt::gmtime(t))\<close>;
  \<^item> \<open>read_uint64\<close>: \<^verbatim>\<open>std::stringstream >> uint64_t\<close>, \<open>None\<close> when \<^verbatim>\<open>fail()\<close>;
  \<^item> \<open>row_marker_apply\<close>, \<open>apply_shadowable\<close>, \<open>reconcile\<close>: \<^verbatim>\<open>row_marker::apply\<close>,
    \<^verbatim>\<open>row_tombstone::apply(shadowable_tombstone, row_marker{})\<close> and the merge of two
    cells of one column in \<^verbatim>\<open>row::apply\<close>;
  \<^item> \<open>moved_from_key\<close>: what a clustering key holds after \<^verbatim>\<open>std::move\<close> took its content.
\<close>

record engine =
  get_column_definition :: "string \<Rightarrow> column_definition option"
  column_at :: "column_kind \<Rightarrow> column_id \<Rightarrow> column_definition"
  decorate_key :: "bytes \<Rightarrow> decorated_key"
  partition_key_text :: "bytes \<Rightarrow> string"
  clustering_key_text :: "bytes \<Rightarrow> string"
  token_text :: "64 word \<Rightarrow> string"
  to_hex :: "bytes \<Rightarrow> string"
  from_hex :: "string \<Rightarrow> bytes option"
  timestamp_from_string :: "string \<Rightarrow> int option"
  gmtime_text :: "gc_clock \<Rightarrow> string"
  read_uint64 :: "string \<Rightarrow> 64 word option"
  row_marker_apply :: "row_marker \<Rightarrow> row_marker \<Rightarrow> row_marker"
  apply_shadowable :: "row_tombstone \<Rightarrow> tombstone \<Rightarrow> row_tombstone"
  reconcile :: "atomic_cell_or_collection \<Rightarrow> atomic_cell_or_collection \<Rightarrow> atomic_cell_or_collection"
  moved_from_key :: "bytes \<Rightarrow> bytes"

text \<open>
  \<^verbatim>\<open>row::apply(def, cell)\<close>: the cell takes the place of its column id; where the row
  has a cell of that column already, the two are merged.
\<close>

fun row_apply ::
    "engine \<Rightarrow> column_id \<Rightarrow> atomic_cell_or_collection \<Rightarrow> row \<Rightarrow> row" where
  "row_apply env i c [] = [(i, c)]"
| "row_apply env i c ((j, d) # r) =
     (if i < j then (i, c) # (j, d) # r
      else if i = j then (j, reconcile env d c) # r
      else (j, d) # row_apply env i c r)"

text \<open>\<^verbatim>\<open>row_tombstone::tomb()\<close>: the shadowable part, which is never below the regular one.\<close>

definition row_tombstone_tomb :: "row_tombstone \<Rightarrow> tombstone" where
  "row_tombstone_tomb t = shadowable t"

section \<open>JSON events\<close>

text \<open>
  The calls of the rapidjson interface, which the dumper makes on its writer and the
  reader makes on the parser's handler. The integers have the widths of their C++
  types (\<open>Int32\<close> is \<^verbatim>\<open>Int(int)\<close>); a double is its 64 bits. The member and element counts that \<^verbatim>\<open>EndObject\<close> and
  \<^verbatim>\<open>EndArray\<close> carry are left out: the writer gets none and the handler reads none.
\<close>

datatype json_event =
    Null
  | Bool bool
  | Int32 "32 word"
  | Uint "32 word"
  | Int64 "64 word"
  | Uint64 "64 word"
  | Double "64 word"
  | RawNumber string
  | String string
  | StartObject
  | Key string
  | EndObject
  | StartArray
  | EndArray

section \<open>The structured-stream parser: the handler\<close>

text \<open>
  \<^verbatim>\<open>json_mutation_stream_parser::handler\<close>. Its fields keep their names after the prefix
  \<open>h_\<close> (\<open>h_key\<close> is \<^verbatim>\<open>_key\<close>). The queue it writes to is the list of what was pushed, in
  order, \<open>None\<close> standing for the disengaged optional that ends the stream, and
  \<open>h_abort\<close> is the exception given to \<^verbatim>\<open>_queue.abort\<close>. The state stack is a list with
  its front first: \<^verbatim>\<open>push_front\<close> is \<open>#\<close>.
\<close>

datatype state =
    start
  | before_partition
  | in_partition
  | before_key
  | in_key
  | before_tombstone
  | in_tombstone
  | before_static_columns
  | before_clustering_elements
  | before_clustering_element
  | in_clustering_element
  | in_range_tombstone_change
  | in_clustering_row
  | before_marker
  | in_marker
  | before_clustering_columns
  | before_column_key
  | before_column
  | in_column
  | before_ignored_value
  | before_integer
  | before_string
  | before_bool

record column =
  col_def :: "column_definition option"
  col_is_live :: "bool option"
  col_timestamp :: "timestamp_type option"
  col_value :: "bytes option"
  col_deletion_time :: "gc_clock option"

record tombstone_parts =
  tp_timestamp :: "timestamp_type option"
  tp_deletion_time :: "gc_clock option"

record handler =
  h_queue :: "mutation_fragment_v2 option list"
  h_abort :: "exception option"
  h_state_stack :: "state list"
  h_key :: string
  h_partition_start_emited :: bool
  h_is_shadowable :: bool
  h_bool :: "bool option"
  h_integer :: "64 word option"
  h_string :: "string option"
  h_pkey :: "bytes option"
  h_tombstone :: "tombstone_parts option"
  h_ckey :: "bytes option"
  h_bound_weight :: "bound_weight option"
  h_row_marker :: "row_marker option"
  h_row_tombstone :: "row_tombstone option"
  h_row :: "row option"
  h_column :: "column option"
  h_ttl :: "gc_clock option"
  h_expiry :: "gc_clock option"

fun state_to_string :: "state \<Rightarrow> string" where
  "state_to_string start = ''start''"
| "state_to_string before_partition = ''before_partition''"
| "state_to_string in_partition = ''in_partition''"
| "state_to_string before_key = ''before_key''"
| "state_to_string in_key = ''in_key''"
| "state_to_string before_tombstone = ''before_tombstone''"
| "state_to_string in_tombstone = ''in_tombstone''"
| "state_to_string before_static_columns = ''before_static_columns''"
| "state_to_string before_clustering_elements = ''before_clustering_elements''"
| "state_to_string before_clustering_element = ''before_clustering_element''"
| "state_to_string in_clustering_element = ''in_clustering_element''"
| "state_to_string in_range_tombstone_change = ''in_range_tombstone_change''"
| "state_to_string in_clustering_row = ''in_clustering_row''"
| "state_to_string before_marker = ''before_marker''"
| "state_to_string in_marker = ''in_marker''"
| "state_to_string before_clustering_columns = ''before_clustering_columns''"
| "state_to_string before_column_key = ''before_column_key''"
| "state_to_string before_column = ''before_column''"
| "state_to_string in_column = ''in_column''"
| "state_to_string before_ignored_value = ''before_ignored_value''"
| "state_to_string before_integer = ''before_integer''"
| "state_to_string before_string = ''before_string''"
| "state_to_string before_bool = ''before_bool''"

fun join :: "string list \<Rightarrow> string \<Rightarrow> string" where
  "join [] sep = []"
| "join [x] sep = x"
| "join (x # y # ys) sep = x @ sep @ join (y # ys) sep"

definition stack_to_string :: "handler \<Rightarrow> string" where
  "stack_to_string h = join (map state_to_string (h_state_stack h)) ''|''"

text \<open>
  \<^verbatim>\<open>error\<close> aborts the queue with a \<^verbatim>\<open>std::runtime_error\<close> of the message and returns
  false, which stops the reader. The messages keep their fixed text; of the values
  formatted into them, the state stack is kept and the exception texts are not.
\<close>

definition error :: "string \<Rightarrow> handler \<Rightarrow> bool \<times> handler" where
  "error msg h = (False, h\<lparr>h_abort := Some (runtime_error msg)\<rparr>)"

definition emit :: "mutation_fragment_v2 \<Rightarrow> handler \<Rightarrow> bool \<times> handler" where
  "emit mf h = (True, h\<lparr>h_queue := h_queue h @ [Some mf]\<rparr>)"

text \<open>
  Reading a scratch optional that is empty: \<^verbatim>\<open>value()\<close> throws
  \<^verbatim>\<open>std::bad_optional_access\<close>, \<^verbatim>\<open>*\<close> and \<^verbatim>\<open>->\<close> are undefined. The model ends the parse
  with that exception in both cases; \<open>deref\<close> reads a field and goes on with its
  content.
\<close>

definition bad_optional_access :: "handler \<Rightarrow> bool \<times> handler" where
  "bad_optional_access h = (False, h\<lparr>h_abort := Some (system_error ''bad optional access'')\<rparr>)"

definition deref ::
    "(handler \<Rightarrow> 'a option) \<Rightarrow> ('a \<Rightarrow> handler \<Rightarrow> bool \<times> handler) \<Rightarrow> handler \<Rightarrow> bool \<times> handler" where
  "deref field f h = (case field h of None \<Rightarrow> bad_optional_access h | Some x \<Rightarrow> f x h)"

text \<open>\<^verbatim>\<open>top(i)\<close> is \<^verbatim>\<open>_state_stack[i]\<close>; beyond the stack the model has no state there.\<close>

definition top :: "nat \<Rightarrow> handler \<Rightarrow> state option" where
  "top i h = (if i < length (h_state_stack h) then Some (h_state_stack h ! i) else None)"

definition push :: "state \<Rightarrow> handler \<Rightarrow> bool \<times> handler" where
  "push s h = (True, h\<lparr>h_state_stack := s # h_state_stack h\<rparr>)"

definition parse_partition_key :: "engine \<Rightarrow> handler \<Rightarrow> bool \<times> handler" where
  "parse_partition_key env =
     deref h_string (\<lambda>str h.
       case from_hex env str of
         None \<Rightarrow> error ''failed to parse partition key from raw string'' h
       | Some raw \<Rightarrow> (True, h\<lparr>h_pkey := Some raw\<rparr>))"

definition parse_clustering_key :: "engine \<Rightarrow> handler \<Rightarrow> bool \<times> handler" where
  "parse_clustering_key env =
     deref h_string (\<lambda>str h.
       case from_hex env str of
         None \<Rightarrow> error ''failed to parse clustering key from raw string'' h
       | Some raw \<Rightarrow> (True, h\<lparr>h_ckey := Some raw\<rparr>))"

definition parse_bound_weight :: "handler \<Rightarrow> bool \<times> handler" where
  "parse_bound_weight =
     deref h_integer (\<lambda>i h.
       if i = - 1 then (True, h\<lparr>h_bound_weight := Some before_all_prefixed\<rparr>)
       else if i = 0 then (True, h\<lparr>h_bound_weight := Some equal\<rparr>)
       else if i = 1 then (True, h\<lparr>h_bound_weight := Some after_all_prefixed\<rparr>)
       else error ''failed to parse bound weight: not a valid bound weight value'' h)"

definition parse_deletion_time :: "engine \<Rightarrow> handler \<Rightarrow> bool \<times> handler" where
  "parse_deletion_time env =
     deref h_string (\<lambda>str h.
       case timestamp_from_string env str of
         None \<Rightarrow> error ''failed to parse deletion_time'' h
       | Some ms \<Rightarrow>
          (let dt = cxx_div ms 1000 in
           if top 1 h = Some in_column then
             deref h_column (\<lambda>c h. (True, h\<lparr>h_column := Some (c\<lparr>col_deletion_time := Some dt\<rparr>)\<rparr>)) h
           else
             deref h_tombstone (\<lambda>t h. (True, h\<lparr>h_tombstone := Some (t\<lparr>tp_deletion_time := Some dt\<rparr>)\<rparr>)) h))"

text \<open>
  \<^verbatim>\<open>parse_ttl\<close> drops one trailing \<open>s\<close> and reads a \<^verbatim>\<open>uint64_t\<close>, which becomes the
  signed count of a \<^verbatim>\<open>gc_clock::duration\<close>. Of an empty string, where the source looks
  before its start, the model drops nothing.
\<close>

definition parse_ttl :: "engine \<Rightarrow> handler \<Rightarrow> bool \<times> handler" where
  "parse_ttl env =
     deref h_string (\<lambda>str h.
       let digits = (if str \<noteq> [] \<and> last str = CHR ''s'' then butlast str else str) in
       case read_uint64 env digits of
         None \<Rightarrow> error ''failed to parse ttl value'' h
       | Some ttl \<Rightarrow> (True, h\<lparr>h_ttl := Some (sint ttl)\<rparr>))"

definition parse_expiry :: "engine \<Rightarrow> handler \<Rightarrow> bool \<times> handler" where
  "parse_expiry env =
     deref h_string (\<lambda>str h.
       case timestamp_from_string env str of
         None \<Rightarrow> error ''failed to parse expiry'' h
       | Some ms \<Rightarrow> (True, h\<lparr>h_expiry := Some (cxx_div ms 1000)\<rparr>))"

text \<open>
  \<^verbatim>\<open>get_tombstone\<close> returns the tombstone, or nothing after it has reported an
  incomplete one.
\<close>

definition get_tombstone :: "handler \<Rightarrow> tombstone option \<times> handler" where
  "get_tombstone h =
     (case h_tombstone h of
        None \<Rightarrow> (None, snd (bad_optional_access h))
      | Some t \<Rightarrow>
         (if (tp_timestamp t \<noteq> None) \<noteq> (tp_deletion_time t \<noteq> None) then
            (None, snd (error
               ''incomplete tombstone: timestamp or deletion-time have to be either both present or missing''
               h))
          else
            (case (tp_timestamp t, tp_deletion_time t) of
               (Some ts, Some dt) \<Rightarrow> (Some (Tombstone ts dt), h\<lparr>h_tombstone := None\<rparr>)
             | _ \<Rightarrow> (Some empty_tombstone, h\<lparr>h_tombstone := None\<rparr>))))"

definition finalize_partition_start :: "engine \<Rightarrow> tombstone \<Rightarrow> handler \<Rightarrow> bool \<times> handler" where
  "finalize_partition_start env tomb h =
     (let pkey = h_pkey h; h1 = h\<lparr>h_pkey := None\<rparr> in
      case pkey of
        None \<Rightarrow> error ''failed to finalize partition start: no partition key'' h1
      | Some k \<Rightarrow>
          emit (Partition_start \<lparr>ps_key = decorate_key env k, partition_tombstone = tomb\<rparr>)
            (h1\<lparr>h_partition_start_emited := True\<rparr>))"

definition finalize_static_row :: "handler \<Rightarrow> bool \<times> handler" where
  "finalize_static_row h =
     (case h_row h of
        None \<Rightarrow> error ''failed to finalize clustering row: row is not initialized yet'' h
      | Some r \<Rightarrow> emit (Static_row r) (h\<lparr>h_row := None\<rparr>))"

definition finalize_range_tombstone_change :: "handler \<Rightarrow> bool \<times> handler" where
  "finalize_range_tombstone_change h =
     (case h_bound_weight h of
        None \<Rightarrow> error ''failed to finalize range tombstone change: missing bound weight'' h
      | Some w \<Rightarrow>
         (if w = equal then
            error ''failed to finalize range tombstone change: bound_weight::equal is not valid for range tombstones changes'' h
          else
            (case h_row_tombstone h of
               None \<Rightarrow> error ''failed to finalize range tombstone change: missing tombstone'' h
             | Some rt \<Rightarrow>
                (let ckey = (case h_ckey h of None \<Rightarrow> [] | Some k \<Rightarrow> k);
                     pos = \<lparr>get_bound_weight = w, pos_key = Some ckey\<rparr>;
                     h1 = h\<lparr>h_ckey := None, h_bound_weight := None, h_row_tombstone := None\<rparr>
                 in emit (Range_tombstone_change
                            \<lparr>rtc_position = pos, rtc_tombstone = row_tombstone_tomb rt\<rparr>) h1))))"

definition finalize_row_marker :: "engine \<Rightarrow> handler \<Rightarrow> bool \<times> handler" where
  "finalize_row_marker env h =
     (case h_row_marker h of
        None \<Rightarrow> error ''failed to finalize row marker: it has no timestamp'' h
      | Some m \<Rightarrow>
         (if (h_expiry h \<noteq> None) \<noteq> (h_ttl h \<noteq> None) then
            error ''failed to finalize row marker: ttl and expiry must either be both present or both missing'' h
          else
            (case (h_ttl h, h_expiry h) of
               (Some ttl, Some expiry) \<Rightarrow>
                 (True, h\<lparr>h_row_marker :=
                            Some (row_marker_apply env m (expiring_marker (marker_timestamp m) ttl expiry)),
                          h_ttl := None, h_expiry := None\<rparr>)
             | _ \<Rightarrow> (True, h))))"

definition parse_column_value :: "engine \<Rightarrow> handler \<Rightarrow> bool \<times> handler" where
  "parse_column_value env =
     deref h_string (\<lambda>str. deref h_column (\<lambda>c h.
       case col_def c of
         None \<Rightarrow> bad_optional_access h
       | Some d \<Rightarrow>
          (case type_from_string (column_type d) str of
             None \<Rightarrow> error ''failed to parse cell value'' h
           | Some v \<Rightarrow> (True, h\<lparr>h_column := Some (c\<lparr>col_value := Some v\<rparr>)\<rparr>))))"

text \<open>
  \<^verbatim>\<open>finalize_column\<close>. After the five checks every field the cell needs is there; the
  last branch of the \<open>case\<close> stands for reading one that is not. A dead cell leaves
  \<^verbatim>\<open>_ttl\<close> and \<^verbatim>\<open>_expiry\<close> as they are.
\<close>

definition finalize_column :: "engine \<Rightarrow> handler \<Rightarrow> bool \<times> handler" where
  "finalize_column env h =
     (case h_row h of
        None \<Rightarrow> error ''failed to finalize cell: row not initialized yet'' h
      | Some r \<Rightarrow>
         deref h_column (\<lambda>c h.
           if col_is_live c = None \<or> col_timestamp c = None then
             error ''failed to finalize cell: required fields is_live and/or timestamp missing'' h
           else if col_is_live c = Some True \<and> col_value c = None then
             error ''failed to finalize cell: live cell doesn't have data'' h
           else if col_is_live c = Some False \<and> col_deletion_time c = None then
             error ''failed to finalize cell: dead cell doesn't have deletion time'' h
           else if (h_expiry h \<noteq> None) \<noteq> (h_ttl h \<noteq> None) then
             error ''failed to finalize cell: ttl and expiry must either be both present or both missing'' h
           else
             (case (col_def c, col_timestamp c, col_is_live c, col_value c, col_deletion_time c,
                    h_ttl h, h_expiry h) of
                (Some d, Some ts, Some True, Some v, _, Some ttl, Some expiry) \<Rightarrow>
                  (True, h\<lparr>h_row := Some (row_apply env (col_id d)
                                       (atomic (live_cell ts v (Some (ttl, expiry)))) r),
                           h_expiry := None, h_ttl := None, h_column := None\<rparr>)
              | (Some d, Some ts, Some True, Some v, _, None, _) \<Rightarrow>
                  (True, h\<lparr>h_row := Some (row_apply env (col_id d) (atomic (live_cell ts v None)) r),
                           h_column := None\<rparr>)
              | (Some d, Some ts, Some False, _, Some dt, _, _) \<Rightarrow>
                  (True, h\<lparr>h_row := Some (row_apply env (col_id d) (atomic (dead_cell ts dt)) r),
                           h_column := None\<rparr>)
              | _ \<Rightarrow> bad_optional_access h)) h)"

text \<open>
  \<^verbatim>\<open>finalize_clustering_row\<close> moves the key out of \<^verbatim>\<open>_ckey\<close> and leaves the optional
  engaged, holding the moved-from key.
\<close>

definition finalize_clustering_row :: "engine \<Rightarrow> handler \<Rightarrow> bool \<times> handler" where
  "finalize_clustering_row env h =
     (case h_ckey h of
        None \<Rightarrow> error ''failed to finalize clustering row: missing clustering key'' h
      | Some ckey \<Rightarrow>
         (case h_row h of
            None \<Rightarrow> error ''failed to finalize clustering row: row is not initialized yet'' h
          | Some r \<Rightarrow>
             (let tomb = h_row_tombstone h; marker = h_row_marker h;
                  h1 = h\<lparr>h_row := None, h_row_tombstone := None, h_row_marker := None,
                         h_ckey := Some (moved_from_key env ckey)\<rparr>
              in emit (Clustering_row
                         \<lparr>cr_key = ckey,
                          cr_tomb = (case tomb of None \<Rightarrow> make_row_tombstone empty_tombstone
                                     | Some t \<Rightarrow> t),
                          cr_marker = (case marker of None \<Rightarrow> missing_marker | Some m \<Rightarrow> m),
                          cr_cells = r\<rparr>) h1)))"

definition finalize_partition :: "handler \<Rightarrow> bool \<times> handler" where
  "finalize_partition h = emit Partition_end (h\<lparr>h_partition_start_emited := False\<rparr>)"

record retire_state_result =
  ok :: bool
  pop_states :: nat
  next_state :: "state option"

text \<open>
  \<^verbatim>\<open>handle_retire_state\<close>: the result and the handler after the retire action.
  \<open>retire n r\<close> is the result of an action \<open>r\<close> that pops \<open>n\<close> states.
\<close>

definition retire :: "nat \<Rightarrow> bool \<times> handler \<Rightarrow> retire_state_result \<times> handler" where
  "retire n r = (\<lparr>ok = fst r, pop_states = n, next_state = None\<rparr>, snd r)"

definition retire_in_tombstone :: "engine \<Rightarrow> handler \<Rightarrow> retire_state_result \<times> handler" where
  "retire_in_tombstone env h =
     (let is_shadowable = h_is_shadowable h;
          got = get_tombstone (h\<lparr>h_is_shadowable := False\<rparr>);
          h1 = snd got
      in case fst got of
           None \<Rightarrow> retire 2 (False, h1)
         | Some tomb \<Rightarrow>
            (if top 2 h1 = Some in_partition then
               retire 2 (finalize_partition_start env tomb h1)
             else if top 2 h1 = Some in_range_tombstone_change then
               retire 2 (True, h1\<lparr>h_row_tombstone := Some (make_row_tombstone tomb)\<rparr>)
             else if top 2 h1 = Some in_clustering_row then
               (if is_shadowable then
                  (case h_row_tombstone h1 of
                     None \<Rightarrow>
                       retire 2 (error ''cannot apply shadowable tombstone, row tombstone not initialized yet'' h1)
                   | Some rt \<Rightarrow>
                       retire 2 (True, h1\<lparr>h_row_tombstone := Some (apply_shadowable env rt tomb)\<rparr>))
                else retire 2 (True, h1\<lparr>h_row_tombstone := Some (make_row_tombstone tomb)\<rparr>))
             else
               retire 2 (error (''retiring in_tombstone state in invalid context: '' @ stack_to_string h1) h1)))"

definition retire_before_bool :: "handler \<Rightarrow> retire_state_result \<times> handler" where
  "retire_before_bool h =
     (let r = (if top 1 h = Some in_column then
                 deref h_column (\<lambda>c h. (True, h\<lparr>h_column := Some (c\<lparr>col_is_live := h_bool h\<rparr>)\<rparr>)) h
               else (True, h))
      in retire 1 (fst r, (snd r)\<lparr>h_bool := None\<rparr>))"

text \<open>
  The four tests of \<^verbatim>\<open>top(1)\<close> in the \<^verbatim>\<open>before_integer\<close> case exclude one another;
  \<^verbatim>\<open>_integer.reset()\<close> runs after them also when the bound weight was refused.
\<close>

definition retire_before_integer :: "handler \<Rightarrow> retire_state_result \<times> handler" where
  "retire_before_integer h =
     (let r =
        (if top 1 h = Some in_tombstone then
           deref h_integer (\<lambda>i. deref h_tombstone (\<lambda>t h.
             (True, h\<lparr>h_tombstone := Some (t\<lparr>tp_timestamp := Some i\<rparr>)\<rparr>))) h
         else if top 1 h = Some in_range_tombstone_change then parse_bound_weight h
         else if top 1 h = Some in_column then
           deref h_column (\<lambda>c h. (True, h\<lparr>h_column := Some (c\<lparr>col_timestamp := h_integer h\<rparr>)\<rparr>)) h
         else if top 1 h = Some in_marker then
           deref h_integer (\<lambda>i h. (True, h\<lparr>h_row_marker := Some (live_marker i)\<rparr>)) h
         else (True, h))
      in retire 1 (fst r, (snd r)\<lparr>h_integer := None\<rparr>))"

definition retire_before_string :: "engine \<Rightarrow> handler \<Rightarrow> retire_state_result \<times> handler" where
  "retire_before_string env h =
     (let reset = (\<lambda>r :: bool \<times> handler. (fst r, (snd r)\<lparr>h_string := None\<rparr>)) in
      if top 1 h = Some in_key then
        (if top 3 h = Some in_partition then retire 1 (reset (parse_partition_key env h))
         else if top 3 h = Some in_clustering_row \<or> top 3 h = Some in_range_tombstone_change then
           retire 1 (reset (parse_clustering_key env h))
         else retire 1 (reset (True, h)))
      else if top 1 h = Some in_tombstone then retire 1 (reset (parse_deletion_time env h))
      else if top 1 h = Some in_marker then
        (if h_key h = ''ttl'' then retire 1 (reset (parse_ttl env h))
         else retire 1 (reset (parse_expiry env h)))
      else if top 1 h = Some in_clustering_element then
        (case h_string h of
           None \<Rightarrow> retire 1 (bad_optional_access h)
         | Some str \<Rightarrow>
            (if str = ''clustering-row'' then
               (\<lparr>ok = True, pop_states = 1, next_state = Some in_clustering_row\<rparr>,
                h\<lparr>h_string := None\<rparr>)
             else if str = ''range-tombstone-change'' then
               (\<lparr>ok = True, pop_states = 1, next_state = Some in_range_tombstone_change\<rparr>,
                h\<lparr>h_string := None\<rparr>)
             else
               retire 1 (reset (error
                 ''invalid clustering element type, expected clustering-row or range-tombstone-change''
                 h))))
      else if top 1 h = Some in_column then
        (if h_key h = ''ttl'' then retire 1 (reset (parse_ttl env h))
         else if h_key h = ''expiry'' then retire 1 (reset (parse_expiry env h))
         else if h_key h = ''deletion_time'' then retire 1 (reset (parse_deletion_time env h))
         else retire 1 (reset (parse_column_value env h)))
      else retire 1 (reset (True, h)))"

definition handle_retire_state :: "engine \<Rightarrow> handler \<Rightarrow> retire_state_result \<times> handler" where
  "handle_retire_state env h =
     (case top 0 h of
        Some before_partition \<Rightarrow> retire 1 (True, h\<lparr>h_queue := h_queue h @ [None]\<rparr>)
      | Some in_partition \<Rightarrow> retire 1 (finalize_partition h)
      | Some in_key \<Rightarrow> retire 2 (True, h)
      | Some in_tombstone \<Rightarrow> retire_in_tombstone env h
      | Some in_marker \<Rightarrow> retire 2 (finalize_row_marker env h)
      | Some in_column \<Rightarrow> retire 2 (finalize_column env h)
      | Some before_column_key \<Rightarrow>
          (if top 1 h = Some before_static_columns then retire 2 (finalize_static_row h)
           else retire 2 (True, h))
      | Some before_clustering_element \<Rightarrow> retire 2 (True, h)
      | Some in_range_tombstone_change \<Rightarrow> retire 2 (finalize_range_tombstone_change h)
      | Some in_clustering_row \<Rightarrow> retire 2 (finalize_clustering_row env h)
      | Some before_ignored_value \<Rightarrow> retire 1 (True, h)
      | Some before_bool \<Rightarrow> retire_before_bool h
      | Some before_integer \<Rightarrow> retire_before_integer h
      | Some before_string \<Rightarrow> retire_before_string env h
      | _ \<Rightarrow>
          retire 1 (error (''attempted to retire unexpected state ('' @ stack_to_string h @ '')'') h))"

text \<open>
  \<^verbatim>\<open>pop\<close>: on success the states are taken from the front of the stack, then the next
  state, if any, is pushed.
\<close>

definition pop :: "engine \<Rightarrow> handler \<Rightarrow> bool \<times> handler" where
  "pop env h =
     (let res = fst (handle_retire_state env h); h1 = snd (handle_retire_state env h) in
      if \<not> ok res then (False, h1)
      else
        (let h2 = h1\<lparr>h_state_stack := drop (pop_states res) (h_state_stack h1)\<rparr> in
         case next_state res of
           None \<Rightarrow> (True, h2)
         | Some s \<Rightarrow> (True, snd (push s h2))))"

definition unexpected :: "string \<Rightarrow> handler \<Rightarrow> bool \<times> handler" where
  "unexpected event h =
     error (''unexpected json event '' @ event @ '' in state '' @ stack_to_string h) h"

definition unexpected_key :: "string \<Rightarrow> handler \<Rightarrow> bool \<times> handler" where
  "unexpected_key k h =
     error (''unexpected json event Key('' @ k @ '') in state '' @ stack_to_string h) h"

text \<open>The constructor: empty scratch, and \<^verbatim>\<open>push(state::start)\<close>.\<close>

definition new_handler :: handler where
  "new_handler =
     \<lparr>h_queue = [], h_abort = None, h_state_stack = [start], h_key = [],
      h_partition_start_emited = False, h_is_shadowable = False, h_bool = None,
      h_integer = None, h_string = None, h_pkey = None, h_tombstone = None, h_ckey = None,
      h_bound_weight = None, h_row_marker = None, h_row_tombstone = None, h_row = None,
      h_column = None, h_ttl = None, h_expiry = None\<rparr>"

text \<open>
  The event functions. An integer event stores its value in \<^verbatim>\<open>_integer\<close>, an
  \<^verbatim>\<open>int64_t\<close>: \<^verbatim>\<open>int\<close> is sign-extended, \<^verbatim>\<open>unsigned\<close> zero-extended, and \<^verbatim>\<open>uint64_t\<close> keeps
  its bits.
\<close>

definition handle_Null :: "engine \<Rightarrow> handler \<Rightarrow> bool \<times> handler" where
  "handle_Null env h =
     (case top 0 h of
        Some before_ignored_value \<Rightarrow> pop env h
      | _ \<Rightarrow> unexpected ''Null'' h)"

definition handle_Bool :: "engine \<Rightarrow> bool \<Rightarrow> handler \<Rightarrow> bool \<times> handler" where
  "handle_Bool env b h =
     (case top 0 h of
        Some before_bool \<Rightarrow> pop env (h\<lparr>h_bool := Some b\<rparr>)
      | _ \<Rightarrow> unexpected ''Bool'' h)"

definition handle_integer :: "engine \<Rightarrow> string \<Rightarrow> 64 word \<Rightarrow> handler \<Rightarrow> bool \<times> handler" where
  "handle_integer env event i h =
     (case top 0 h of
        Some before_ignored_value \<Rightarrow> pop env h
      | Some before_integer \<Rightarrow> pop env (h\<lparr>h_integer := Some i\<rparr>)
      | _ \<Rightarrow> unexpected event h)"

definition handle_Int :: "engine \<Rightarrow> 32 word \<Rightarrow> handler \<Rightarrow> bool \<times> handler" where
  "handle_Int env i = handle_integer env ''Int'' (scast i)"

definition handle_Uint :: "engine \<Rightarrow> 32 word \<Rightarrow> handler \<Rightarrow> bool \<times> handler" where
  "handle_Uint env i = handle_integer env ''Uint'' (ucast i)"

definition handle_Int64 :: "engine \<Rightarrow> 64 word \<Rightarrow> handler \<Rightarrow> bool \<times> handler" where
  "handle_Int64 env i = handle_integer env ''Int64'' i"

definition handle_Uint64 :: "engine \<Rightarrow> 64 word \<Rightarrow> handler \<Rightarrow> bool \<times> handler" where
  "handle_Uint64 env i = handle_integer env ''Uint64'' i"

definition handle_Double :: "engine \<Rightarrow> 64 word \<Rightarrow> handler \<Rightarrow> bool \<times> handler" where
  "handle_Double env d h =
     (case top 0 h of
        Some before_ignored_value \<Rightarrow> pop env h
      | _ \<Rightarrow> unexpected ''Double'' h)"

definition handle_RawNumber :: "engine \<Rightarrow> string \<Rightarrow> handler \<Rightarrow> bool \<times> handler" where
  "handle_RawNumber env str h = unexpected ''RawNumber'' h"

definition handle_String :: "engine \<Rightarrow> string \<Rightarrow> handler \<Rightarrow> bool \<times> handler" where
  "handle_String env str h =
     (case top 0 h of
        Some before_ignored_value \<Rightarrow> pop env h
      | Some before_string \<Rightarrow> pop env (h\<lparr>h_string := Some str\<rparr>)
      | _ \<Rightarrow> unexpected ''String'' h)"

definition handle_StartObject :: "engine \<Rightarrow> handler \<Rightarrow> bool \<times> handler" where
  "handle_StartObject env h =
     (case top 0 h of
        Some before_partition \<Rightarrow> push in_partition h
      | Some before_key \<Rightarrow> push in_key h
      | Some before_tombstone \<Rightarrow>
          push in_tombstone
            (h\<lparr>h_tombstone := Some \<lparr>tp_timestamp = None, tp_deletion_time = None\<rparr>\<rparr>)
      | Some before_static_columns \<Rightarrow> push before_column_key (h\<lparr>h_row := Some []\<rparr>)
      | Some before_clustering_element \<Rightarrow> push in_clustering_element (h\<lparr>h_row := Some []\<rparr>)
      | Some before_marker \<Rightarrow> push in_marker h
      | Some before_clustering_columns \<Rightarrow> push before_column_key h
      | Some before_column \<Rightarrow> push in_column h
      | _ \<Rightarrow> unexpected ''StartObject'' h)"

definition key_in_partition :: "engine \<Rightarrow> handler \<Rightarrow> bool \<times> handler" where
  "key_in_partition env h =
     (if h_key h = ''key'' then push before_key h
      else if h_key h = ''tombstone'' then push before_tombstone h
      else if h_key h = ''static_row'' \<or> h_key h = ''clustering_elements'' then
        (let started =
           (if \<not> h_partition_start_emited h then finalize_partition_start env empty_tombstone h
            else (True, h))
         in if \<not> fst started then (False, snd started)
            else if h_key h = ''static_row'' then push before_static_columns (snd started)
            else push before_clustering_elements (snd started))
      else unexpected_key (h_key h) h)"

definition key_before_column_key :: "engine \<Rightarrow> handler \<Rightarrow> bool \<times> handler" where
  "key_before_column_key env h0 =
     (let def = get_column_definition env (h_key h0);
          h = h0\<lparr>h_column := Some \<lparr>col_def = def, col_is_live = None, col_timestamp = None,
                                   col_value = None, col_deletion_time = None\<rparr>\<rparr>
      in case def of
           None \<Rightarrow> error (''failed to look-up column name '' @ h_key h) h
         | Some d \<Rightarrow>
            (if top 1 h = Some before_static_columns \<and> kind d \<noteq> static_column then
               error (''cannot add column '' @ h_key h @ '' to static row'') h
             else if top 1 h = Some before_clustering_columns \<and> kind d \<noteq> regular_column then
               error (''cannot add column '' @ h_key h @ '' to regular row'') h
             else if \<not> is_atomic d then
               error (''failed to initialize column '' @ h_key h
                        @ '': non-atomic columns are not supported yet'') h
             else push before_column h))"

definition handle_Key :: "engine \<Rightarrow> string \<Rightarrow> handler \<Rightarrow> bool \<times> handler" where
  "handle_Key env str h0 =
     (let h = h0\<lparr>h_key := str\<rparr> in
      case top 0 h of
        Some in_partition \<Rightarrow> key_in_partition env h
      | Some in_key \<Rightarrow>
          (if str = ''value'' \<or> (top 2 h = Some in_partition \<and> str = ''token'') then
             push before_ignored_value h
           else if str = ''raw'' then push before_string h
           else unexpected_key str h)
      | Some in_tombstone \<Rightarrow>
          (if str = ''timestamp'' then push before_integer h
           else if str = ''deletion_time'' then push before_string h
           else unexpected_key str h)
      | Some in_marker \<Rightarrow>
          (if str = ''timestamp'' then push before_integer h
           else if str = ''ttl'' \<or> str = ''expiry'' then push before_string h
           else unexpected_key str h)
      | Some in_clustering_element \<Rightarrow>
          (if str = ''type'' then push before_string h else unexpected_key str h)
      | Some in_range_tombstone_change \<Rightarrow>
          (if str = ''key'' then push before_key h
           else if str = ''weight'' then push before_integer h
           else if str = ''tombstone'' then push before_tombstone h
           else unexpected_key str h)
      | Some in_clustering_row \<Rightarrow>
          (if str = ''key'' then push before_key h
           else if str = ''marker'' then push before_marker h
           else if str = ''tombstone'' then push before_tombstone h
           else if str = ''shadowable_tombstone'' then
             push before_tombstone (h\<lparr>h_is_shadowable := True\<rparr>)
           else if str = ''columns'' then push before_clustering_columns h
           else unexpected_key str h)
      | Some before_column_key \<Rightarrow> key_before_column_key env h
      | Some in_column \<Rightarrow>
          (if str = ''is_live'' then push before_bool h
           else if str = ''timestamp'' then push before_integer h
           else if str = ''ttl'' \<or> str = ''expiry'' \<or> str = ''value'' \<or> str = ''deletion_time'' then
             push before_string h
           else unexpected_key str h)
      | _ \<Rightarrow> unexpected_key str h)"

definition handle_EndObject :: "engine \<Rightarrow> handler \<Rightarrow> bool \<times> handler" where
  "handle_EndObject env h =
     (case top 0 h of
        Some in_partition \<Rightarrow> pop env h
      | Some in_key \<Rightarrow> pop env h
      | Some in_tombstone \<Rightarrow> pop env h
      | Some in_range_tombstone_change \<Rightarrow> pop env h
      | Some in_clustering_row \<Rightarrow> pop env h
      | Some before_column_key \<Rightarrow> pop env h
      | Some in_marker \<Rightarrow> pop env h
      | Some in_column \<Rightarrow> pop env h
      | _ \<Rightarrow> unexpected ''EndObject'' h)"

definition handle_StartArray :: "engine \<Rightarrow> handler \<Rightarrow> bool \<times> handler" where
  "handle_StartArray env h =
     (case top 0 h of
        Some start \<Rightarrow> push before_partition h
      | Some before_clustering_elements \<Rightarrow> push before_clustering_element h
      | _ \<Rightarrow> unexpected ''StartArray'' h)"

definition handle_EndArray :: "engine \<Rightarrow> handler \<Rightarrow> bool \<times> handler" where
  "handle_EndArray env h =
     (case top 0 h of
        Some before_clustering_element \<Rightarrow> pop env h
      | Some before_partition \<Rightarrow> pop env h
      | _ \<Rightarrow> unexpected ''EndArray'' h)"

text \<open>One event of the reader, given to the handler function of its name.\<close>

fun handle :: "engine \<Rightarrow> json_event \<Rightarrow> handler \<Rightarrow> bool \<times> handler" where
  "handle env Null h = handle_Null env h"
| "handle env (Bool b) h = handle_Bool env b h"
| "handle env (Int32 i) h = handle_Int env i h"
| "handle env (Uint i) h = handle_Uint env i h"
| "handle env (Int64 i) h = handle_Int64 env i h"
| "handle env (Uint64 i) h = handle_Uint64 env i h"
| "handle env (Double d) h = handle_Double env d h"
| "handle env (RawNumber str) h = handle_RawNumber env str h"
| "handle env (String str) h = handle_String env str h"
| "handle env StartObject h = handle_StartObject env h"
| "handle env (Key str) h = handle_Key env str h"
| "handle env EndObject h = handle_EndObject env h"
| "handle env StartArray h = handle_StartArray env h"
| "handle env EndArray h = handle_EndArray env h"

text \<open>
  \<^verbatim>\<open>reader.Parse(stream, handler)\<close> on the events of a document: the reader stops at the
  first event the handler answers with false.
\<close>

fun parse_events :: "engine \<Rightarrow> json_event list \<Rightarrow> handler \<Rightarrow> bool \<times> handler" where
  "parse_events env [] h = (True, h)"
| "parse_events env (e # es) h =
     (case handle env e h of
        (False, h') \<Rightarrow> (False, h')
      | (True, h') \<Rightarrow> parse_events env es h')"

section \<open>The structured dumper\<close>

text \<open>
  Every \<^verbatim>\<open>write\<close> function of \<^verbatim>\<open>json_dumper\<close> writes one complete JSON value: it opens
  an object or an array, writes the members and closes it. The model gives the value
  it writes as a tree, whose members stand in the order of the \<^verbatim>\<open>Key\<close> calls, and
  \<open>events_of\<close> is the sequence of writer calls that writes the tree.
\<close>

datatype json =
    JBool bool
  | JInt "32 word"
  | JInt64 "64 word"
  | JString string
  | JObject "(string \<times> json) list"
  | JArray "json list"

fun events_of :: "json \<Rightarrow> json_event list" where
  "events_of (JBool b) = [Bool b]"
| "events_of (JInt i) = [Int32 i]"
| "events_of (JInt64 i) = [Int64 i]"
| "events_of (JString str) = [String str]"
| "events_of (JObject members) =
     StartObject # concat (map (\<lambda>m. Key (fst m) # events_of (snd m)) members) @ [EndObject]"
| "events_of (JArray elements) = StartArray # concat (map events_of elements) @ [EndArray]"

text \<open>\<^verbatim>\<open>to_string(gc_clock::time_point)\<close>, and \<^verbatim>\<open>AsString\<close> of a duration, which \<^verbatim>\<open>fmt\<close> prints
  as its count of seconds and an \<open>s\<close>.\<close>

definition to_string :: "engine \<Rightarrow> gc_clock \<Rightarrow> string" where
  "to_string env tp = gmtime_text env tp @ ''z''"

definition duration_text :: "gc_clock \<Rightarrow> string" where
  "duration_text ttl = format_int ttl @ ''s''"

text \<open>\<^verbatim>\<open>write(ttl, expiry)\<close> writes two members into the object that is open.\<close>

definition write_ttl_expiry :: "engine \<Rightarrow> gc_clock \<Rightarrow> gc_clock \<Rightarrow> (string \<times> json) list" where
  "write_ttl_expiry env ttl expiry =
     [(''ttl'', JString (duration_text ttl)), (''expiry'', JString (to_string env expiry))]"

definition write_key :: "engine \<Rightarrow> bytes \<Rightarrow> json" where
  "write_key env k =
     JObject [(''raw'', JString (to_hex env k)), (''value'', JString (clustering_key_text env k))]"

text \<open>\<^verbatim>\<open>json_writer::PartitionKey\<close>; the dumper always passes the token.\<close>

definition PartitionKey :: "engine \<Rightarrow> bytes \<Rightarrow> 64 word option \<Rightarrow> json" where
  "PartitionKey env pkey tok =
     JObject ((case tok of None \<Rightarrow> [] | Some t \<Rightarrow> [(''token'', JString (token_text env t))])
              @ [(''raw'', JString (to_hex env pkey)),
                 (''value'', JString (partition_key_text env pkey))])"

fun write_tombstone :: "engine \<Rightarrow> tombstone \<Rightarrow> json" where
  "write_tombstone env empty_tombstone = JObject []"
| "write_tombstone env (Tombstone ts dt) =
     JObject [(''timestamp'', JInt64 ts), (''deletion_time'', JString (to_string env dt))]"

definition write_marker :: "engine \<Rightarrow> row_marker \<Rightarrow> json" where
  "write_marker env m =
     JObject ((''timestamp'', JInt64 (marker_timestamp m))
              # (if marker_is_live m \<and> is_expiring m
                 then write_ttl_expiry env (marker_ttl m) (marker_expiry m) else []))"

definition write_counter :: "counter_shard list \<Rightarrow> json" where
  "write_counter shards =
     JArray (map (\<lambda>shard. JObject [(''id'', JString (shard_id shard)),
                                     (''value'', JInt64 (shard_value shard)),
                                     (''clock'', JInt64 (shard_logical_clock shard))]) shards)"

definition write_atomic_cell :: "engine \<Rightarrow> atomic_cell \<Rightarrow> data_type \<Rightarrow> json" where
  "write_atomic_cell env cell t =
     JObject ([(''is_live'', JBool (cell_is_live cell)),
               (''timestamp'', JInt64 (cell_timestamp cell))]
              @ (if is_counter t then
                   (if is_counter_update cell then [(''value'', JInt64 (counter_update_value cell))]
                    else [(''shards'', write_counter (cell_shards cell))])
                 else
                   (if is_live_and_has_ttl cell
                    then write_ttl_expiry env (cell_ttl cell) (cell_expiry cell) else [])
                   @ (if cell_is_live cell
                      then [(''value'', JString (type_to_string t (cell_value cell)))]
                      else [(''deletion_time'', JString (to_string env (cell_deletion_time cell)))])))"

text \<open>
  \<^verbatim>\<open>t->type(i)\<close> of a tuple type; past the last field, where the source reads out of
  bounds, the model has a type that prints nothing.
\<close>

definition tuple_field_type :: "data_type list \<Rightarrow> nat \<Rightarrow> data_type" where
  "tuple_field_type field_types i =
     (if i < length field_types then field_types ! i
      else Data_type False (\<lambda>b. []) (\<lambda>str. None) plain_type_impl)"

definition write_collection :: "engine \<Rightarrow> collection_mutation_view_description \<Rightarrow> data_type \<Rightarrow> json" where
  "write_collection env mv t =
     JObject ((if tombstone_bool (mv_tomb mv) then [(''tombstone'', write_tombstone env (mv_tomb mv))]
               else [])
              @ [(''cells'',
                  (case type_impl t of
                     collection_type_impl name_comparator value_comparator \<Rightarrow>
                       JObject (map (\<lambda>c. (type_to_string name_comparator (fst c),
                                            write_atomic_cell env (snd c) value_comparator))
                                  (mv_cells mv))
                   | tuple_type_impl user field_types \<Rightarrow>
                       JObject (map (\<lambda>ic. (format_nat (fst ic),
                                             write_atomic_cell env (snd (snd ic))
                                               (tuple_field_type field_types (fst ic))))
                                  (enumerate 0 (mv_cells mv)))
                   | plain_type_impl \<Rightarrow> JString ''<unknown>''))])"

definition write_cell :: "engine \<Rightarrow> atomic_cell_or_collection \<Rightarrow> column_definition \<Rightarrow> json" where
  "write_cell env cell cdef =
     (if is_atomic cdef then write_atomic_cell env (as_atomic_cell cell) (column_type cdef)
      else if is_collection (column_type cdef) \<or> is_user_type (column_type cdef) then
        write_collection env (as_collection_mutation cell) (column_type cdef)
      else JString ''<unknown>'')"

definition write_row :: "engine \<Rightarrow> row \<Rightarrow> column_kind \<Rightarrow> json" where
  "write_row env r k =
     JObject (map (\<lambda>ic. (name_as_text (column_at env k (fst ic)),
                          write_cell env (snd ic) (column_at env k (fst ic)))) r)"

definition write_clustering_row :: "engine \<Rightarrow> clustering_row \<Rightarrow> json" where
  "write_clustering_row env cr =
     JObject ([(''type'', JString ''clustering-row''), (''key'', write_key env (cr_key cr))]
              @ (if row_tombstone_bool (cr_tomb cr) then
                   [(''tombstone'', write_tombstone env (regular (cr_tomb cr))),
                    (''shadowable_tombstone'', write_tombstone env (shadowable (cr_tomb cr)))]
                 else [])
              @ (if \<not> is_missing (cr_marker cr) then [(''marker'', write_marker env (cr_marker cr))]
                 else [])
              @ [(''columns'', write_row env (cr_cells cr) regular_column)])"

definition write_range_tombstone_change :: "engine \<Rightarrow> range_tombstone_change \<Rightarrow> json" where
  "write_range_tombstone_change env rtc =
     JObject ([(''type'', JString ''range-tombstone-change'')]
              @ (case pos_key (rtc_position rtc) of
                   None \<Rightarrow> []
                 | Some k \<Rightarrow> [(''key'', write_key env k)])
              @ [(''weight'', JInt (bound_weight_int (get_bound_weight (rtc_position rtc)))),
                 (''tombstone'', write_tombstone env (rtc_tombstone rtc))])"

text \<open>
  The dumper as a consumer: its state is the flag \<^verbatim>\<open>_clustering_array_created\<close> and the
  writer calls made so far. A partition stays open from \<^verbatim>\<open>consume(partition_start)\<close> to
  \<^verbatim>\<open>consume(partition_end)\<close>, so these functions are sequences of calls, not values.
\<close>

record json_dumper =
  clustering_array_created :: bool
  written :: "json_event list"

definition put :: "json_event list \<Rightarrow> json_dumper \<Rightarrow> json_dumper" where
  "put events d = d\<lparr>written := written d @ events\<rparr>"

definition open_clustering_array :: "json_dumper \<Rightarrow> json_dumper" where
  "open_clustering_array d =
     (if \<not> clustering_array_created d then
        (put [Key ''clustering_elements'', StartArray] d)\<lparr>clustering_array_created := True\<rparr>
      else d)"

fun dumper_consume :: "engine \<Rightarrow> mutation_fragment_v2 \<Rightarrow> json_dumper \<Rightarrow> stop_iteration \<times> json_dumper" where
  "dumper_consume env (Partition_start ps) d =
     (no, put ([StartObject, Key ''key'']
               @ events_of (PartitionKey env (dk_key (ps_key ps)) (Some (dk_token (ps_key ps))))
               @ (if tombstone_bool (partition_tombstone ps)
                  then Key ''tombstone'' # events_of (write_tombstone env (partition_tombstone ps))
                  else []))
            (d\<lparr>clustering_array_created := False\<rparr>))"
| "dumper_consume env (Static_row sr) d =
     (no, put (Key ''static_row'' # events_of (write_row env sr static_column)) d)"
| "dumper_consume env (Clustering_row cr) d =
     (no, put (events_of (write_clustering_row env cr)) (open_clustering_array d))"
| "dumper_consume env (Range_tombstone_change rtc) d =
     (no, put (events_of (write_range_tombstone_change env rtc)) (open_clustering_array d))"
| "dumper_consume env Partition_end d =
     (no, put ((if clustering_array_created d then [EndArray] else []) @ [EndObject]) d)"

definition json_dumper_consumer :: "engine \<Rightarrow> json_dumper sstable_consumer" where
  "json_dumper_consumer env =
     \<lparr>on_start_of_stream = put [StartObject, Key ''sstables'', StartObject],
      on_new_sstable = (\<lambda>sst d.
        (no, put [Key (case sst of None \<Rightarrow> ''anonymous'' | Some name \<Rightarrow> name), StartArray] d)),
      consume = dumper_consume env,
      on_end_of_sstable = (\<lambda>d. (no, put [EndArray] d)),
      on_end_of_stream = put [EndObject, EndObject]\<rparr>"

text \<open>
  The dump of one sstable: what the dumper writes for the fragments of a reader,
  between the key of the sstable and the end of its array. This is the document the
  write operation takes (\<^verbatim>\<open>jq .sstables[]\<close> in the tool's help).
\<close>

definition dump_sstable :: "engine \<Rightarrow> reader \<Rightarrow> json_event list" where
  "dump_sstable env rd =
     tl (written (snd (consume_reader rd (json_dumper_consumer env) None [] False
                         \<lparr>clustering_array_created = False, written = []\<rparr>)))"

section \<open>Parser properties: the definitions they use\<close>

text \<open>
  An engine for concrete runs: one regular atomic column \<open>v\<close> whose values are their
  own text, keys that are their own hex, token 0 for every key, and times that all
  read as 0.
\<close>

definition sample_column :: column_definition where
  "sample_column =
     \<lparr>name_as_text = ''v'', kind = regular_column, col_id = 0,
      column_type = Data_type False (\<lambda>b. b) Some plain_type_impl, is_atomic = True\<rparr>"

definition sample_engine :: engine where
  "sample_engine =
     \<lparr>get_column_definition = (\<lambda>name. if name = ''v'' then Some sample_column else None),
      column_at = (\<lambda>k i. sample_column),
      decorate_key = (\<lambda>k. \<lparr>dk_token = 0, dk_key = k\<rparr>),
      partition_key_text = (\<lambda>k. k), clustering_key_text = (\<lambda>k. k),
      token_text = (\<lambda>t. ''0''), to_hex = (\<lambda>b. b), from_hex = Some,
      timestamp_from_string = (\<lambda>str. Some 0), gmtime_text = (\<lambda>t. ''1970-01-01 00:00:00''),
      read_uint64 = (\<lambda>str. Some 1), row_marker_apply = (\<lambda>old new. new),
      apply_shadowable = (\<lambda>rt t. rt\<lparr>shadowable := t\<rparr>), reconcile = (\<lambda>old new. new),
      moved_from_key = (\<lambda>k. [])\<rparr>"

text \<open>
  The same engine with a clock and a number reader that tell two inputs apart: the
  time \<^verbatim>\<open>2030-01-01 00:00:00\<close> is 1893456000000 milliseconds and every other time 0,
  the digits \<^verbatim>\<open>7\<close> read as 7 and every other string as 5.
\<close>

definition clock_engine :: engine where
  "clock_engine =
     sample_engine
       \<lparr>timestamp_from_string :=
          (\<lambda>str. if str = ''2030-01-01 00:00:00'' then Some 1893456000000 else Some 0),
        read_uint64 := (\<lambda>str. if str = ''7'' then Some 7 else Some 5)\<rparr>"

text \<open>
  The grammar of the state stack: \<open>parent_ok c p\<close> says that state \<open>c\<close> may lie
  directly on state \<open>p\<close>. A stack is well-formed when every state lies on a state it
  may lie on and the last one is \<open>start\<close>. \<open>depth_bound s\<close> is the greatest height at
  which \<open>s\<close> can then lie.
\<close>

fun parent_ok :: "state \<Rightarrow> state \<Rightarrow> bool" where
  "parent_ok before_partition p = (p = start)"
| "parent_ok in_partition p = (p = before_partition)"
| "parent_ok before_key p = (p = in_partition \<or> p = in_clustering_row \<or> p = in_range_tombstone_change)"
| "parent_ok in_key p = (p = before_key)"
| "parent_ok before_tombstone p = (p = in_partition \<or> p = in_clustering_row \<or> p = in_range_tombstone_change)"
| "parent_ok in_tombstone p = (p = before_tombstone)"
| "parent_ok before_static_columns p = (p = in_partition)"
| "parent_ok before_clustering_elements p = (p = in_partition)"
| "parent_ok before_clustering_element p = (p = before_clustering_elements)"
| "parent_ok in_clustering_element p = (p = before_clustering_element)"
| "parent_ok in_range_tombstone_change p = (p = in_clustering_element)"
| "parent_ok in_clustering_row p = (p = in_clustering_element)"
| "parent_ok before_marker p = (p = in_clustering_row)"
| "parent_ok in_marker p = (p = before_marker)"
| "parent_ok before_clustering_columns p = (p = in_clustering_row)"
| "parent_ok before_column_key p = (p = before_static_columns \<or> p = before_clustering_columns)"
| "parent_ok before_column p = (p = before_column_key)"
| "parent_ok in_column p = (p = before_column)"
| "parent_ok before_ignored_value p = (p = in_key)"
| "parent_ok before_integer p = (p = in_tombstone \<or> p = in_marker \<or> p = in_range_tombstone_change \<or> p = in_column)"
| "parent_ok before_string p = (p = in_key \<or> p = in_tombstone \<or> p = in_marker \<or> p = in_clustering_element \<or> p = in_column)"
| "parent_ok before_bool p = (p = in_column)"
| "parent_ok start p = False"

fun stack_ok :: "state list \<Rightarrow> bool" where
  "stack_ok [] = False"
| "stack_ok [s] = (s = start)"
| "stack_ok (c # p # ps) = (parent_ok c p \<and> stack_ok (p # ps))"

fun depth_bound :: "state \<Rightarrow> nat" where
  "depth_bound start = 1"
| "depth_bound before_partition = 2"
| "depth_bound in_partition = 3"
| "depth_bound before_static_columns = 4"
| "depth_bound before_clustering_elements = 4"
| "depth_bound before_clustering_element = 5"
| "depth_bound in_clustering_element = 6"
| "depth_bound in_range_tombstone_change = 7"
| "depth_bound in_clustering_row = 7"
| "depth_bound before_key = 8"
| "depth_bound before_tombstone = 8"
| "depth_bound before_marker = 8"
| "depth_bound before_clustering_columns = 8"
| "depth_bound in_key = 9"
| "depth_bound in_tombstone = 9"
| "depth_bound in_marker = 9"
| "depth_bound before_column_key = 9"
| "depth_bound before_column = 10"
| "depth_bound before_ignored_value = 10"
| "depth_bound in_column = 11"
| "depth_bound before_integer = 12"
| "depth_bound before_string = 12"
| "depth_bound before_bool = 12"

text \<open>
  How many states a successful retire of a state pops, and the states that can be
  retired at all.
\<close>

fun pops :: "state \<Rightarrow> nat" where
  "pops in_key = 2"
| "pops in_tombstone = 2"
| "pops in_marker = 2"
| "pops in_column = 2"
| "pops before_column_key = 2"
| "pops before_clustering_element = 2"
| "pops in_range_tombstone_change = 2"
| "pops in_clustering_row = 2"
| "pops _ = 1"

fun retirable :: "state \<Rightarrow> bool" where
  "retirable start = False"
| "retirable before_key = False"
| "retirable before_tombstone = False"
| "retirable before_static_columns = False"
| "retirable before_clustering_elements = False"
| "retirable in_clustering_element = False"
| "retirable before_marker = False"
| "retirable before_clustering_columns = False"
| "retirable before_column = False"
| "retirable _ = True"

text \<open>
  What the claim on \<^verbatim>\<open>finalize_column\<close> asks of the parts of a column, in its words:
  \<open>is_live\<close> and \<open>timestamp\<close> are there, a live cell has a value and has ttl and expiry
  both or neither, a dead cell has a deletion time. The ttl and the expiry are given
  beside the column, as the handler keeps them: \<^verbatim>\<open>_ttl\<close> and \<^verbatim>\<open>_expiry\<close> are its own
  members, not members of \<^verbatim>\<open>struct column\<close>.
\<close>

definition cell_fields_ok :: "column \<Rightarrow> gc_clock option \<Rightarrow> gc_clock option \<Rightarrow> bool" where
  "cell_fields_ok c ttl expiry =
     (col_is_live c \<noteq> None \<and> col_timestamp c \<noteq> None \<and>
      (col_is_live c = Some True \<longrightarrow> col_value c \<noteq> None \<and> ((ttl = None) = (expiry = None))) \<and>
      (col_is_live c = Some False \<longrightarrow> col_deletion_time c \<noteq> None))"

text \<open>The cell that these parts describe, when they do.\<close>

definition composed_cell :: "column \<Rightarrow> gc_clock option \<Rightarrow> gc_clock option \<Rightarrow> atomic_cell option" where
  "composed_cell c ttl expiry =
     (case (col_timestamp c, col_is_live c) of
        (Some ts, Some True) \<Rightarrow>
          (case col_value c of
             None \<Rightarrow> None
           | Some v \<Rightarrow>
              Some (live_cell ts v (case (ttl, expiry) of (Some t, Some e) \<Rightarrow> Some (t, e) | _ \<Rightarrow> None)))
      | (Some ts, Some False) \<Rightarrow>
          (case col_deletion_time c of None \<Rightarrow> None | Some dt \<Rightarrow> Some (dead_cell ts dt))
      | _ \<Rightarrow> None)"

text \<open>
  The member names of the object that a sequence of writer calls writes: the keys
  given while exactly one container is open.
\<close>

fun keys_at_depth :: "nat \<Rightarrow> json_event list \<Rightarrow> string list" where
  "keys_at_depth d [] = []"
| "keys_at_depth d (StartObject # es) = keys_at_depth (Suc d) es"
| "keys_at_depth d (StartArray # es) = keys_at_depth (Suc d) es"
| "keys_at_depth d (EndObject # es) = keys_at_depth (d - 1) es"
| "keys_at_depth d (EndArray # es) = keys_at_depth (d - 1) es"
| "keys_at_depth d (Key k # es) = (if d = 1 then k # keys_at_depth d es else keys_at_depth d es)"
| "keys_at_depth d (e # es) = keys_at_depth d es"

definition member_keys :: "json_event list \<Rightarrow> string list" where
  "member_keys es = keys_at_depth 0 es"

section \<open>Properties of the write operation\<close>

lemma write_operation_checks_first:
  assumes "write_precondition_violated filename sstables vm files"
  shows "isl (write_operation filename wc sstables vm files) \<and>
         write_operation filename wc sstables vm files = write_operation filename wc' sstables vm files"
  using assms
  by (auto simp: write_precondition_violated_def write_operation_def vm_count_def as_string_def
       as_int64_def Let_def split: option.splits option_value.splits sum.splits)

text \<open>
  C8: when input sstables were given, or the input-file option or the generation
  option is missing, or the prospective output sstable exists already, the write
  operation ends in an exception, and the same one whatever the writing step would do:
  the check fails before anything is written.
\<close>

theorem write_operation_precondition_error:
  assumes "write_precondition_violated filename sstables vm files"
  shows "\<exists>e. \<forall>wc. write_operation filename wc sstables vm files = Inl e"
proof -
  from write_operation_checks_first [OF assms, of undefined]
  obtain e where e: "write_operation filename undefined sstables vm files = Inl e"
    by (cases "write_operation filename undefined sstables vm files") auto
  have "write_operation filename wc sstables vm files = Inl e" for wc
    using write_operation_checks_first [OF assms, of wc undefined] e by simp
  then show ?thesis by blast
qed

theorem write_operation_precondition_error_witness:
  "write_precondition_violated (\<lambda>dir generation. dir @ ''/me-7-big-Data.db'') ([] :: sstable list)
     [''input-file'' \<mapsto> Str ''input.json'', ''output-dir'' \<mapsto> Str ''.'',
      ''generation'' \<mapsto> I64 7, ''validation-level'' \<mapsto> Str ''clustering_key'']
     [''./me-7-big-Data.db'' \<mapsto> ''data''] \<and>
   (\<exists>e. \<forall>wc. write_operation (\<lambda>dir generation. dir @ ''/me-7-big-Data.db'') wc ([] :: sstable list)
     [''input-file'' \<mapsto> Str ''input.json'', ''output-dir'' \<mapsto> Str ''.'',
      ''generation'' \<mapsto> I64 7, ''validation-level'' \<mapsto> Str ''clustering_key'']
     [''./me-7-big-Data.db'' \<mapsto> ''data''] = Inl e)"
proof -
  have v: "write_precondition_violated (\<lambda>dir generation. dir @ ''/me-7-big-Data.db'') ([] :: sstable list)
     [''input-file'' \<mapsto> Str ''input.json'', ''output-dir'' \<mapsto> Str ''.'',
      ''generation'' \<mapsto> I64 7, ''validation-level'' \<mapsto> Str ''clustering_key'']
     [''./me-7-big-Data.db'' \<mapsto> ''data'']"
    by (simp add: write_precondition_violated_def file_exists_def)
  show ?thesis using v write_operation_precondition_error [OF v] by simp
qed

section \<open>Properties of the decompress operation\<close>

lemma open_wo_create:
  "open_file_dma name [wo, create] files =
     Inr (case files name of None \<Rightarrow> files(name \<mapsto> []) | Some old \<Rightarrow> files)"
  by (simp add: open_file_dma_def split: option.splits)

text \<open>
  C9, as the code has it: an sstable that is not compressed is skipped and the file
  system stays as it was. For a compressed one the sibling file
  \<open><original>.decompressed\<close> is opened for writing and made when missing; an existing
  file is not refused, the stream writes over what it holds. The operation fails
  exactly when the data stream does, and the output file is there afterwards on
  success and on failure alike, holding the chunks decompressed so far.
\<close>

theorem decompress_sstable_effect:
  "(\<not> get_compression sst \<longrightarrow> decompress_sstable out sst files = (None, files)) \<and>
   (get_compression sst \<longrightarrow>
      fst (decompress_sstable out sst files) = snd (data_stream sst) \<and>
      snd (decompress_sstable out sst files) =
        files(get_filename sst @ ''.decompressed'' \<mapsto>
          out (file_content files (get_filename sst @ ''.decompressed''))
              (concat (fst (data_stream sst)))))"
  by (auto simp: decompress_sstable_def open_wo_create Let_def file_content_def split: option.splits)

theorem decompress_sstable_effect_witness:
  "get_compression \<lparr>get_filename = ''md-1-big-Data.db'', get_compression = True,
       data_stream = ([''ab''], Some (runtime_error ''corrupt chunk''))\<rparr> \<and>
   decompress_sstable pwrite_stream
      \<lparr>get_filename = ''md-1-big-Data.db'', get_compression = True,
        data_stream = ([''ab''], Some (runtime_error ''corrupt chunk''))\<rparr>
      [''md-1-big-Data.db.decompressed'' \<mapsto> ''old content'']
     = (Some (runtime_error ''corrupt chunk''),
        [''md-1-big-Data.db.decompressed'' \<mapsto> ''abd content'']) \<and>
   \<not> get_compression \<lparr>get_filename = ''md-2-big-Data.db'', get_compression = False,
       data_stream = ([''ab''], None)\<rparr> \<and>
   decompress_sstable pwrite_stream
      \<lparr>get_filename = ''md-2-big-Data.db'', get_compression = False,
        data_stream = ([''ab''], None)\<rparr> Map.empty = (None, Map.empty)"
  using decompress_sstable_effect [of "\<lparr>get_filename = ''md-1-big-Data.db'', get_compression = True,
       data_stream = ([''ab''], Some (runtime_error ''corrupt chunk''))\<rparr>" pwrite_stream
       "[''md-1-big-Data.db.decompressed'' \<mapsto> ''old content'']"]
    decompress_sstable_effect [of "\<lparr>get_filename = ''md-2-big-Data.db'', get_compression = False,
        data_stream = ([''ab''], None)\<rparr>" pwrite_stream Map.empty]
  by (simp add: pwrite_stream_def file_content_def prod_eq_iff)

text \<open>
  The claim as stated fails twice. With the output file already there the operation
  succeeds and writes into it; and when the data stream fails after its first chunk,
  the operation fails and leaves the output file behind.
\<close>

theorem decompress_operation_counterexample:
  "decompress_operation pwrite_stream
     [\<lparr>get_filename = ''md-1-big-Data.db'', get_compression = True,
       data_stream = ([''ab'', ''cd''], None)\<rparr>]
     [''md-1-big-Data.db.decompressed'' \<mapsto> ''old content'']
   = (None, [''md-1-big-Data.db.decompressed'' \<mapsto> ''abcdcontent'']) \<and>
   decompress_operation pwrite_stream
     [\<lparr>get_filename = ''md-1-big-Data.db'', get_compression = True,
       data_stream = ([''ab''], Some (runtime_error ''corrupt chunk''))\<rparr>] Map.empty
   = (Some (runtime_error ''corrupt chunk''), [''md-1-big-Data.db.decompressed'' \<mapsto> ''ab''])"
  by (simp add: decompress_operation_def decompress_sstable_def open_file_dma_def pwrite_stream_def
      file_content_def)

section \<open>Properties of the writetime histogram\<close>

lemma fst_map_increment [simp]: "map fst (map_increment k m) = map fst m"
  by (induction m) auto

lemma keys_map_emplace: "fst ` set (map_emplace k v m) = insert k (fst ` set m)"
proof (induction m)
  case Nil
  then show ?case by simp
next
  case (Cons a m)
  obtain k' v' where a: "a = (k', v')" by (cases a)
  show ?case using Cons.IH by (simp add: a insert_commute)
qed

lemma sorted_map_emplace: "sorted_wrt (<) (map fst m) \<Longrightarrow> sorted_wrt (<) (map fst (map_emplace k v m))"
proof (induction m)
  case Nil
  then show ?case by simp
next
  case (Cons a m)
  obtain k' v' where a: "a = (k', v')" by (cases a)
  from Cons.prems have s: "sorted_wrt (<) (map fst m)" and lt: "\<forall>x\<in>fst ` set m. k' < x"
    by (auto simp: a)
  consider "k < k'" | "k = k'" | "k' < k" by linarith
  then show ?case
  proof cases
    case 1
    then show ?thesis using Cons.prems lt by (auto simp: a)
  next
    case 2
    then show ?thesis using Cons.prems by (simp add: a)
  next
    case 3
    have "\<forall>x\<in>fst ` set (map_emplace k v m). k' < x"
      using lt 3 by (simp add: keys_map_emplace)
    then show ?thesis using Cons.IH [OF s] 3 by (simp add: a)
  qed
qed

lemma map_of_map_emplace:
  "sorted_wrt (<) (map fst m) \<Longrightarrow>
   map_of (map_emplace k v m) x = (if x = k \<and> map_of m k = None then Some v else map_of m x)"
proof (induction m)
  case Nil
  then show ?case by simp
next
  case (Cons a m)
  obtain k' v' where a: "a = (k', v')" by (cases a)
  from Cons.prems have s: "sorted_wrt (<) (map fst m)" and lt: "\<forall>x\<in>fst ` set m. k' < x"
    by (auto simp: a)
  have absent: "map_of m k = None" if "k < k'"
  proof -
    have "k \<notin> fst ` set m" using lt that by auto
    then show ?thesis by (simp add: map_of_eq_None_iff)
  qed
  show ?case using Cons.IH [OF s] absent by (auto simp: a)
qed

lemma map_of_map_increment:
  "map_of (map_increment k m) x = (if x = k then map_option (\<lambda>v. v + 1) (map_of m k) else map_of m x)"
  by (induction m) auto

lemma collect_timestamp_sorted:
  "sorted_wrt (<) (map fst (w_histogram c)) \<Longrightarrow> sorted_wrt (<) (map fst (w_histogram (collect_timestamp ts c)))"
  by (simp add: collect_timestamp_def Let_def sorted_map_emplace split: option.splits)

lemma collect_timestamp_bucket [simp]: "w_bucket (collect_timestamp ts c) = w_bucket c"
  by (simp add: collect_timestamp_def Let_def)

lemma collect_timestamp_lookup:
  assumes "sorted_wrt (<) (map fst (w_histogram c))"
  shows "map_of (w_histogram (collect_timestamp ts c)) x =
     (if x = timestamp_bucket (w_bucket c) ts
      then Some (case map_of (w_histogram c) x of None \<Rightarrow> 1 | Some v \<Rightarrow> v + 1)
      else map_of (w_histogram c) x)"
  using assms
  by (auto simp: collect_timestamp_def Let_def map_find_def map_of_map_increment map_of_map_emplace
      split: option.splits)

lemma collect_timestamps_bucket [simp]: "w_bucket (collect_timestamps tss c) = w_bucket c"
  unfolding collect_timestamps_def by (induction tss arbitrary: c) auto

lemma collect_timestamps_sorted:
  "sorted_wrt (<) (map fst (w_histogram c)) \<Longrightarrow>
   sorted_wrt (<) (map fst (w_histogram (collect_timestamps tss c)))"
  unfolding collect_timestamps_def
  by (induction tss arbitrary: c) (auto simp: collect_timestamp_sorted)

lemma collect_timestamps_lookup:
  "sorted_wrt (<) (map fst (w_histogram c)) \<Longrightarrow>
   map_of (w_histogram (collect_timestamps tss c)) x =
     (let n = length (filter (\<lambda>t. timestamp_bucket (w_bucket c) t = x) tss) in
      case map_of (w_histogram c) x of
        None \<Rightarrow> if n = 0 then None else Some (of_nat n)
      | Some v \<Rightarrow> Some (v + of_nat n))"
  unfolding collect_timestamps_def
proof (induction tss arbitrary: c)
  case Nil
  then show ?case by (simp split: option.splits)
next
  case (Cons t tss)
  have s: "sorted_wrt (<) (map fst (w_histogram (collect_timestamp t c)))"
    using Cons.prems by (rule collect_timestamp_sorted)
  show ?case
    by (simp add: Cons.IH [OF s] collect_timestamp_lookup [OF Cons.prems] Let_def add.assoc
        split: option.splits)
qed

lemma new_histogram_sorted: "sorted_wrt (<) (map fst (w_histogram (new_histogram_consumer b)))"
  by (simp add: new_histogram_consumer_def)

lemma histogram_run_lookup:
  "map_of (w_histogram (collect_timestamps tss (new_histogram_consumer b))) x =
     (if filter (\<lambda>t. timestamp_bucket b t = x) tss = [] then None
      else Some (of_nat (length (filter (\<lambda>t. timestamp_bucket b t = x) tss))))"
  by (simp add: collect_timestamps_lookup [OF new_histogram_sorted] Let_def)
     (simp add: new_histogram_consumer_def)

lemma histogram_run_entry:
  assumes "i < length (w_histogram (collect_timestamps tss (new_histogram_consumer b)))"
  shows "snd (w_histogram (collect_timestamps tss (new_histogram_consumer b)) ! i) =
         of_nat (length (filter (\<lambda>t. timestamp_bucket b t =
            fst (w_histogram (collect_timestamps tss (new_histogram_consumer b)) ! i)) tss))"
proof -
  let ?h = "w_histogram (collect_timestamps tss (new_histogram_consumer b))"
  have "sorted_wrt (<) (map fst ?h)"
    by (rule collect_timestamps_sorted [OF new_histogram_sorted])
  then have d: "distinct (map fst ?h)"
    by (simp add: strict_sorted_iff)
  have "(fst (?h ! i), snd (?h ! i)) \<in> set ?h"
    using assms by simp
  then have "map_of ?h (fst (?h ! i)) = Some (snd (?h ! i))"
    using d by simp
  then show ?thesis
    by (simp add: histogram_run_lookup split: if_splits)
qed

lemma histogram_run_nonempty:
  assumes "tss \<noteq> []"
  shows "w_histogram (collect_timestamps tss (new_histogram_consumer b)) \<noteq> []"
proof
  assume e: "w_histogram (collect_timestamps tss (new_histogram_consumer b)) = []"
  obtain t tss' where t: "tss = t # tss'" using assms by (cases tss) auto
  have "map_of (w_histogram (collect_timestamps tss (new_histogram_consumer b))) (timestamp_bucket b t) \<noteq> None"
    by (simp add: histogram_run_lookup t)
  then show False by (simp add: e)
qed

text \<open>
  C4, as the code has it: a run that collected at least one timestamp opens
  \<open>histogram.json\<close> in the working directory (made when missing, written over
  otherwise) and writes the document of the two arrays. The buckets ascend strictly,
  there is one count per bucket, and the count of a bucket is the number of collected
  timestamps that fall into it, as a 64-bit unsigned counter.
\<close>

theorem histogram_written_at_end_of_stream:
  assumes "tss \<noteq> []" and "c = collect_timestamps tss (new_histogram_consumer b)"
  shows "histogram_on_end_of_stream out c files =
           Inr (files(''histogram.json'' \<mapsto>
                  out (file_content files ''histogram.json'')
                      (histogram_document (histogram_buckets c) (histogram_counts c)))) \<and>
         sorted_wrt (<) (histogram_buckets c) \<and>
         length (histogram_counts c) = length (histogram_buckets c) \<and>
         (\<forall>i<length (histogram_buckets c).
            histogram_counts c ! i =
              of_nat (length (filter (\<lambda>t. timestamp_bucket b t = histogram_buckets c ! i) tss)))"
proof -
  have ne: "w_histogram c \<noteq> []"
    unfolding assms(2) using assms(1) by (rule histogram_run_nonempty)
  have opened: "open_file_dma ''histogram.json'' [wo, create] files =
      Inr (case files ''histogram.json'' of None \<Rightarrow> files(''histogram.json'' \<mapsto> []) | Some old \<Rightarrow> files)"
    by (simp add: open_file_dma_def split: option.splits)
  have 1: "histogram_on_end_of_stream out c files =
           Inr (files(''histogram.json'' \<mapsto>
                  out (file_content files ''histogram.json'')
                      (histogram_document (histogram_buckets c) (histogram_counts c))))"
    using ne
    by (simp add: histogram_on_end_of_stream_def opened histogram_buckets_def histogram_counts_def
        file_content_def Let_def split: option.splits)
  have 2: "sorted_wrt (<) (histogram_buckets c)"
    unfolding histogram_buckets_def assms(2)
    by (rule collect_timestamps_sorted [OF new_histogram_sorted])
  have 3: "histogram_counts c ! i =
           of_nat (length (filter (\<lambda>t. timestamp_bucket b t = histogram_buckets c ! i) tss))"
    if "i < length (histogram_buckets c)" for i
    using that histogram_run_entry [of i tss b]
    by (simp add: histogram_buckets_def histogram_counts_def assms(2))
  show ?thesis using 1 2 3 by (simp add: histogram_buckets_def histogram_counts_def)
qed

theorem histogram_written_at_end_of_stream_witness:
  "[0, 3600000001, - 1] \<noteq> ([] :: int list) \<and>
   histogram_on_end_of_stream pwrite_stream
      (collect_timestamps [0, 3600000001, - 1] (new_histogram_consumer hours)) Map.empty =
     Inr [''histogram.json'' \<mapsto> histogram_document [0, 3600000000] [2, 1]] \<and>
   histogram_buckets (collect_timestamps [0, 3600000001, - 1] (new_histogram_consumer hours))
     = [0, 3600000000] \<and>
   histogram_counts (collect_timestamps [0, 3600000001, - 1] (new_histogram_consumer hours))
     = [2, 1]"
proof -
  have b: "histogram_buckets (collect_timestamps [0, 3600000001, - 1] (new_histogram_consumer hours))
     = [0, 3600000000]"
    by (simp add: histogram_buckets_def collect_timestamps_def collect_timestamp_def
        new_histogram_consumer_def timestamp_bucket_def cxx_div_def map_find_def Let_def)
  have c: "histogram_counts (collect_timestamps [0, 3600000001, - 1] (new_histogram_consumer hours))
     = [2, 1]"
    by (simp add: histogram_counts_def collect_timestamps_def collect_timestamp_def
        new_histogram_consumer_def timestamp_bucket_def cxx_div_def map_find_def Let_def)
  show ?thesis
    using histogram_written_at_end_of_stream [of "[0, 3600000001, - 1]" _ hours pwrite_stream Map.empty,
        OF _ refl]
    by (simp add: b c file_content_def pwrite_stream_def)
qed

text \<open>
  The claim as stated fails for a run that met no timestamp (an sstable without
  partitions): the histogram is empty and \<^verbatim>\<open>on_end_of_stream\<close> returns before it opens
  the file, so no \<open>histogram.json\<close> exists afterwards.
\<close>

theorem histogram_empty_run_writes_nothing:
  "histogram_on_end_of_stream pwrite_stream (collect_timestamps [] (new_histogram_consumer months))
     Map.empty = Inr Map.empty \<and>
   \<not> file_exists Map.empty ''histogram.json''"
  by (simp add: histogram_on_end_of_stream_def collect_timestamps_def new_histogram_consumer_def
      file_exists_def)


section \<open>Properties of the reader driver\<close>

text \<open>
  C3 at a concrete stream: two partitions, the first with a clustering row, and a
  consumer that answers \<open>yes\<close> (stop) to every partition start. The consumer's own
  interface promises it a \<^verbatim>\<open>consume(partition_end)\<close> and then the next partition. The
  driver peeks at the next fragment, finds the clustering row, which is not a
  partition start, and breaks out of the loop: the consumer gets no partition end,
  never sees the second partition, and the sstable ends. This holds with and without
  \<open>no_skips\<close>.
\<close>

theorem consume_reader_stop_at_partition_start:
  "consume_reader
     [Partition_start \<lparr>ps_key = \<lparr>dk_token = 1, dk_key = ''a''\<rparr>, partition_tombstone = empty_tombstone\<rparr>,
      Clustering_row \<lparr>cr_key = ''c'', cr_tomb = make_row_tombstone empty_tombstone,
                      cr_marker = missing_marker, cr_cells = []\<rparr>,
      Partition_end,
      Partition_start \<lparr>ps_key = \<lparr>dk_token = 2, dk_key = ''b''\<rparr>, partition_tombstone = empty_tombstone\<rparr>,
      Partition_end]
     (recording_consumer (\<lambda>mf. if is_partition_start mf then yes else no)) None [] no_skips []
   = (no, [called_on_new_sstable None,
           called_consume (Partition_start \<lparr>ps_key = \<lparr>dk_token = 1, dk_key = ''a''\<rparr>,
                              partition_tombstone = empty_tombstone\<rparr>),
           called_on_end_of_sstable])"
  by (simp add: consume_reader_def recording_consumer_def paused_def consumer_wrapper_def)

section \<open>Properties of the parser's state stack\<close>

lemmas handler_defs = handle_Null_def handle_Bool_def handle_integer_def handle_Int_def handle_Uint_def
  handle_Int64_def handle_Uint64_def handle_Double_def handle_RawNumber_def handle_String_def
  handle_StartObject_def handle_Key_def handle_EndObject_def handle_StartArray_def handle_EndArray_def
  key_in_partition_def key_before_column_key_def pop_def push_def top_def handle_retire_state_def
  retire_def retire_in_tombstone_def retire_before_bool_def retire_before_integer_def
  retire_before_string_def unexpected_def unexpected_key_def error_def emit_def deref_def
  bad_optional_access_def parse_partition_key_def parse_clustering_key_def parse_bound_weight_def
  parse_deletion_time_def parse_ttl_def parse_expiry_def get_tombstone_def
  finalize_partition_start_def finalize_static_row_def finalize_range_tombstone_change_def
  finalize_row_marker_def parse_column_value_def finalize_column_def finalize_clustering_row_def
  finalize_partition_def new_handler_def

lemma parent_deeper: "parent_ok c p \<Longrightarrow> depth_bound p < depth_bound c"
  by (cases c) auto

lemma depth_bound_le: "depth_bound s \<le> 12"
  by (cases s) auto

lemma stack_ok_length: "stack_ok st \<Longrightarrow> length st \<le> depth_bound (hd st)"
proof (induction st rule: stack_ok.induct)
  case 1
  then show ?case by simp
next
  case (2 s)
  then show ?case by simp
next
  case (3 c p ps)
  then show ?case using parent_deeper [of c p] by simp
qed

lemma stack_ok_le_12: "stack_ok st \<Longrightarrow> length st \<le> 12"
  using stack_ok_length [of st] depth_bound_le [of "hd st"] by simp

lemma stack_ok_tl: "stack_ok (c # p # ps) \<Longrightarrow> stack_ok (p # ps)"
  by simp

lemma stack_ok_drop2: "stack_ok (c # p # ps) \<Longrightarrow> p \<noteq> start \<Longrightarrow> stack_ok ps"
  by (cases ps) auto


lemma stack_error [simp]: "h_state_stack (snd (error msg h)) = h_state_stack h"
  by (simp add: error_def)

lemma stack_emit [simp]: "h_state_stack (snd (emit mf h)) = h_state_stack h"
  by (simp add: emit_def)

lemma stack_bad_optional_access [simp]: "h_state_stack (snd (bad_optional_access h)) = h_state_stack h"
  by (simp add: bad_optional_access_def)

lemma stack_push [simp]: "h_state_stack (snd (push s h)) = s # h_state_stack h"
  by (simp add: push_def)

lemma stack_unexpected [simp]: "h_state_stack (snd (unexpected e h)) = h_state_stack h"
  by (simp add: unexpected_def)

lemma stack_unexpected_key [simp]: "h_state_stack (snd (unexpected_key k h)) = h_state_stack h"
  by (simp add: unexpected_key_def)

lemma stack_deref:
  assumes "\<And>x. h_state_stack (snd (f x h)) = h_state_stack h"
  shows "h_state_stack (snd (deref field f h)) = h_state_stack h"
  using assms by (simp add: deref_def split: option.splits)

lemma stack_parse_partition_key [simp]:
  "h_state_stack (snd (parse_partition_key env h)) = h_state_stack h"
  unfolding parse_partition_key_def by (rule stack_deref) (simp split: option.splits)

lemma stack_parse_clustering_key [simp]:
  "h_state_stack (snd (parse_clustering_key env h)) = h_state_stack h"
  unfolding parse_clustering_key_def by (rule stack_deref) (simp split: option.splits)

lemma stack_parse_bound_weight [simp]:
  "h_state_stack (snd (parse_bound_weight h)) = h_state_stack h"
  unfolding parse_bound_weight_def by (rule stack_deref) simp

lemma stack_parse_deletion_time [simp]:
  "h_state_stack (snd (parse_deletion_time env h)) = h_state_stack h"
  unfolding parse_deletion_time_def
  by (rule stack_deref) (simp add: Let_def stack_deref split: option.splits)

lemma stack_parse_ttl [simp]: "h_state_stack (snd (parse_ttl env h)) = h_state_stack h"
  unfolding parse_ttl_def by (rule stack_deref) (simp add: Let_def split: option.splits)

lemma stack_parse_expiry [simp]: "h_state_stack (snd (parse_expiry env h)) = h_state_stack h"
  unfolding parse_expiry_def by (rule stack_deref) (simp split: option.splits)

lemma stack_get_tombstone [simp]: "h_state_stack (snd (get_tombstone h)) = h_state_stack h"
  by (simp add: get_tombstone_def split: option.splits)

lemma stack_finalize_partition_start [simp]:
  "h_state_stack (snd (finalize_partition_start env tomb h)) = h_state_stack h"
  by (simp add: finalize_partition_start_def Let_def split: option.splits)

lemma stack_finalize_static_row [simp]:
  "h_state_stack (snd (finalize_static_row h)) = h_state_stack h"
  by (simp add: finalize_static_row_def split: option.splits)

lemma stack_finalize_range_tombstone_change [simp]:
  "h_state_stack (snd (finalize_range_tombstone_change h)) = h_state_stack h"
  by (simp add: finalize_range_tombstone_change_def Let_def split: option.splits)

lemma stack_finalize_row_marker [simp]:
  "h_state_stack (snd (finalize_row_marker env h)) = h_state_stack h"
  by (simp add: finalize_row_marker_def split: option.splits)

lemma stack_parse_column_value [simp]:
  "h_state_stack (snd (parse_column_value env h)) = h_state_stack h"
  unfolding parse_column_value_def
  by (rule stack_deref, rule stack_deref) (simp split: option.splits)

lemma stack_finalize_column [simp]:
  "h_state_stack (snd (finalize_column env h)) = h_state_stack h"
proof (cases "h_row h")
  case None
  then show ?thesis by (simp add: finalize_column_def)
next
  case (Some r)
  show ?thesis
    unfolding finalize_column_def Some option.case
    by (rule stack_deref) (simp split: option.splits bool.splits)
qed

lemma stack_finalize_clustering_row [simp]:
  "h_state_stack (snd (finalize_clustering_row env h)) = h_state_stack h"
  by (simp add: finalize_clustering_row_def Let_def split: option.splits)

lemma stack_finalize_partition [simp]:
  "h_state_stack (snd (finalize_partition h)) = h_state_stack h"
  by (simp add: finalize_partition_def)

lemma snd_retire [simp]: "snd (retire n r) = snd r"
  and pop_states_retire [simp]: "pop_states (fst (retire n r)) = n"
  and next_state_retire [simp]: "next_state (fst (retire n r)) = None"
  and ok_retire [simp]: "ok (fst (retire n r)) = fst r"
  by (simp_all add: retire_def)

lemma top_update [simp]:
  "top i (h\<lparr>h_is_shadowable := a\<rparr>) = top i h"
  "top i (h\<lparr>h_bool := b\<rparr>) = top i h"
  "top i (h\<lparr>h_integer := c\<rparr>) = top i h"
  "top i (h\<lparr>h_string := d\<rparr>) = top i h"
  "top i (h\<lparr>h_key := e\<rparr>) = top i h"
  "top i (h\<lparr>h_tombstone := f\<rparr>) = top i h"
  "top i (h\<lparr>h_row := g\<rparr>) = top i h"
  "top i (h\<lparr>h_column := k\<rparr>) = top i h"
  by (simp_all add: top_def)

lemma top_stack_cong: "h_state_stack h' = h_state_stack h \<Longrightarrow> top i h' = top i h"
  by (simp add: top_def)

lemma stack_retire_in_tombstone [simp]:
  "h_state_stack (snd (retire_in_tombstone env h)) = h_state_stack h"
  by (simp add: retire_in_tombstone_def Let_def split: option.splits)

lemma stack_retire_before_bool [simp]:
  "h_state_stack (snd (retire_before_bool h)) = h_state_stack h"
  by (simp add: retire_before_bool_def Let_def stack_deref)

lemma stack_retire_before_integer [simp]:
  "h_state_stack (snd (retire_before_integer h)) = h_state_stack h"
  by (simp add: retire_before_integer_def Let_def stack_deref)

lemma stack_retire_before_string [simp]:
  "h_state_stack (snd (retire_before_string env h)) = h_state_stack h"
  by (simp add: retire_before_string_def Let_def split: option.splits)

lemma stack_handle_retire_state [simp]:
  "h_state_stack (snd (handle_retire_state env h)) = h_state_stack h"
  by (simp add: handle_retire_state_def split: option.splits state.splits)


lemma top0_Cons [simp]: "h_state_stack h = c # rest \<Longrightarrow> top 0 h = Some c"
  by (simp add: top_def)

lemma top1_Cons [simp]: "h_state_stack h = c # p # rest \<Longrightarrow> top (Suc 0) h = Some p"
  by (simp add: top_def)

lemma top0_Nil [simp]: "h_state_stack h = [] \<Longrightarrow> top 0 h = None"
  by (simp add: top_def)

lemma fst_error [simp]: "fst (error msg h) = False"
  by (simp add: error_def)

lemma retire_next_state:
  assumes "next_state (fst (handle_retire_state env h)) = Some s"
  shows "top 0 h = Some before_string \<and> top 1 h = Some in_clustering_element \<and>
         (s = in_clustering_row \<or> s = in_range_tombstone_change)"
  using assms
  by (auto simp: handle_retire_state_def retire_in_tombstone_def retire_before_bool_def
      retire_before_integer_def retire_before_string_def Let_def
      split: option.splits state.splits if_splits)

lemma retire_pop_states:
  assumes "top 0 h = Some c" and "ok (fst (handle_retire_state env h))"
  shows "pop_states (fst (handle_retire_state env h)) = pops c \<and> retirable c"
  using assms
  by (cases c)
     (auto simp: handle_retire_state_def retire_in_tombstone_def retire_before_bool_def
        retire_before_integer_def retire_before_string_def Let_def
        split: option.splits if_splits)

lemma retire_empty_stack:
  assumes "top 0 h = None"
  shows "\<not> ok (fst (handle_retire_state env h))"
  using assms by (simp add: handle_retire_state_def)

lemma pop_stack_ok:
  assumes "stack_ok (h_state_stack h)"
  shows "stack_ok (h_state_stack (snd (pop env h)))"
proof (cases "ok (fst (handle_retire_state env h))")
  case False
  then show ?thesis using assms by (simp add: pop_def Let_def)
next
  case True
  obtain c rest where st: "h_state_stack h = c # rest"
    using assms by (cases "h_state_stack h") auto
  have top0: "top 0 h = Some c" using st by simp
  from retire_pop_states [OF top0 True]
  have n: "pop_states (fst (handle_retire_state env h)) = pops c" and r: "retirable c"
    by simp_all
  have dropped: "stack_ok (drop (pops c) (c # rest))"
  proof (cases rest)
    case Nil
    then have "c = start" using assms st by simp
    then show ?thesis using r by simp
  next
    case (Cons p ps)
    have okp: "stack_ok (p # ps)" and par: "parent_ok c p"
      using assms st Cons by simp_all
    show ?thesis
    proof (cases "pops c = 2")
      case True
      then have "p \<noteq> start" using par by (cases c) auto
      then have "stack_ok ps" using okp by (cases ps) auto
      then show ?thesis using True Cons by simp
    next
      case False
      then have "pops c = 1" by (cases c) auto
      then show ?thesis using okp Cons by simp
    qed
  qed
  show ?thesis
  proof (cases "next_state (fst (handle_retire_state env h))")
    case None
    then show ?thesis using True n dropped st by (simp add: pop_def Let_def)
  next
    case (Some s)
    from retire_next_state [OF Some]
    have c: "c = before_string" and t1: "top 1 h = Some in_clustering_element"
      and s: "s = in_clustering_row \<or> s = in_range_tombstone_change"
      using top0 by simp_all
    obtain ps where rest: "rest = in_clustering_element # ps"
      using t1 st by (cases rest) (auto simp: top_def)
    have "stack_ok (in_clustering_element # ps)"
      using assms st rest by simp
    then have "stack_ok (s # in_clustering_element # ps)"
      using s by auto
    then show ?thesis
      using True n Some st rest c by (simp add: pop_def Let_def)
  qed
qed


lemma top0_SomeD: "top 0 h = Some p \<Longrightarrow> \<exists>rest. h_state_stack h = p # rest"
  by (cases "h_state_stack h") (auto simp: top_def split: if_splits)

lemma push_stack_ok:
  assumes "stack_ok (h_state_stack h)" and "top 0 h = Some p" and "parent_ok c p"
  shows "stack_ok (c # h_state_stack h)"
  using assms by (auto dest!: top0_SomeD)

lemma handle_Null_stack_ok:
  "stack_ok (h_state_stack h) \<Longrightarrow> stack_ok (h_state_stack (snd (handle_Null env h)))"
  by (simp add: handle_Null_def pop_stack_ok split: option.splits state.splits)

lemma handle_Bool_stack_ok:
  "stack_ok (h_state_stack h) \<Longrightarrow> stack_ok (h_state_stack (snd (handle_Bool env b h)))"
  by (simp add: handle_Bool_def pop_stack_ok split: option.splits state.splits)

lemma handle_integer_stack_ok:
  "stack_ok (h_state_stack h) \<Longrightarrow> stack_ok (h_state_stack (snd (handle_integer env e i h)))"
  by (simp add: handle_integer_def pop_stack_ok split: option.splits state.splits)

lemma handle_Double_stack_ok:
  "stack_ok (h_state_stack h) \<Longrightarrow> stack_ok (h_state_stack (snd (handle_Double env d h)))"
  by (simp add: handle_Double_def pop_stack_ok split: option.splits state.splits)

lemma handle_String_stack_ok:
  "stack_ok (h_state_stack h) \<Longrightarrow> stack_ok (h_state_stack (snd (handle_String env str h)))"
  by (simp add: handle_String_def pop_stack_ok split: option.splits state.splits)

lemma handle_EndObject_stack_ok:
  "stack_ok (h_state_stack h) \<Longrightarrow> stack_ok (h_state_stack (snd (handle_EndObject env h)))"
  by (simp add: handle_EndObject_def pop_stack_ok split: option.splits state.splits)

lemma handle_EndArray_stack_ok:
  "stack_ok (h_state_stack h) \<Longrightarrow> stack_ok (h_state_stack (snd (handle_EndArray env h)))"
  by (simp add: handle_EndArray_def pop_stack_ok split: option.splits state.splits)

lemma handle_StartArray_stack_ok:
  "stack_ok (h_state_stack h) \<Longrightarrow> stack_ok (h_state_stack (snd (handle_StartArray env h)))"
  by (auto simp: handle_StartArray_def dest!: top0_SomeD split: option.splits state.splits)

lemma handle_StartObject_stack_ok:
  "stack_ok (h_state_stack h) \<Longrightarrow> stack_ok (h_state_stack (snd (handle_StartObject env h)))"
  by (auto simp: handle_StartObject_def dest!: top0_SomeD split: option.splits state.splits)


lemma key_in_partition_stack_ok:
  assumes "stack_ok (h_state_stack h)" and "top 0 h = Some in_partition"
  shows "stack_ok (h_state_stack (snd (key_in_partition env h)))"
proof -
  obtain rest where st: "h_state_stack h = in_partition # rest"
    using assms(2) by (auto dest!: top0_SomeD)
  have ok: "stack_ok (in_partition # rest)" using assms(1) st by simp
  show ?thesis
    using ok by (simp add: key_in_partition_def Let_def st)
qed

lemma key_before_column_key_stack_ok:
  assumes "stack_ok (h_state_stack h)" and "top 0 h = Some before_column_key"
  shows "stack_ok (h_state_stack (snd (key_before_column_key env h)))"
proof -
  obtain rest where st: "h_state_stack h = before_column_key # rest"
    using assms(2) by (auto dest!: top0_SomeD)
  have ok: "stack_ok (before_column_key # rest)" using assms(1) st by simp
  show ?thesis
    using ok by (simp add: key_before_column_key_def Let_def st split: option.splits)
qed


lemma handle_Key_stack_ok:
  assumes "stack_ok (h_state_stack h)"
  shows "stack_ok (h_state_stack (snd (handle_Key env str h)))"
proof -
  let ?h = "h\<lparr>h_key := str\<rparr>"
  have ok: "stack_ok (h_state_stack ?h)" using assms by simp
  obtain c rest where st: "h_state_stack h = c # rest"
    using assms by (cases "h_state_stack h") auto
  have top0: "top 0 h = Some c" using st by (simp add: top_def)
  have okc: "stack_ok (c # rest)" using assms st by simp
  show ?thesis
  proof (cases c)
    case in_partition
    then show ?thesis
      using key_in_partition_stack_ok [OF ok] top0 by (simp add: handle_Key_def Let_def)
  next
    case before_column_key
    then show ?thesis
      using key_before_column_key_stack_ok [OF ok] top0 by (simp add: handle_Key_def Let_def)
  qed (use okc st top0 in \<open>simp_all add: handle_Key_def Let_def\<close>)
qed

lemma handle_stack_ok:
  assumes "stack_ok (h_state_stack h)"
  shows "stack_ok (h_state_stack (snd (handle env e h)))"
  using assms
  by (cases e)
     (simp_all add: handle_Null_stack_ok handle_Bool_stack_ok handle_integer_stack_ok
        handle_Int_def handle_Uint_def handle_Int64_def handle_Uint64_def handle_Double_stack_ok
        handle_RawNumber_def handle_String_stack_ok handle_StartObject_stack_ok
        handle_Key_stack_ok handle_EndObject_stack_ok handle_StartArray_stack_ok
        handle_EndArray_stack_ok)

lemma parse_events_stack_ok:
  "stack_ok (h_state_stack h) \<Longrightarrow> stack_ok (h_state_stack (snd (parse_events env es h)))"
proof (induction es arbitrary: h)
  case Nil
  then show ?case by simp
next
  case (Cons e es)
  obtain b h' where step: "handle env e h = (b, h')" by (cases "handle env e h")
  have ok': "stack_ok (h_state_stack h')"
    using handle_stack_ok [OF Cons.prems, of env e] step by simp
  show ?case
  proof (cases b)
    case True
    then show ?thesis using step Cons.IH [OF ok'] by simp
  next
    case False
    then show ?thesis using step ok' by simp
  qed
qed

text \<open>
  C5, as the code has it: whatever the events, after each of them the state stack
  holds at most 12 states. (The stack is a growable \<^verbatim>\<open>circular_buffer\<close>; the grammar of
  the states bounds it.)
\<close>

theorem state_stack_depth:
  "length (h_state_stack (snd (parse_events env es new_handler))) \<le> 12"
proof -
  have "stack_ok (h_state_stack new_handler)" by (simp add: new_handler_def)
  then have "stack_ok (h_state_stack (snd (parse_events env es new_handler)))"
    by (rule parse_events_stack_ok)
  then show ?thesis by (rule stack_ok_le_12)
qed


text \<open>
  The claim as stated fails: at the key \<open>is_live\<close> of a column of a clustering row the
  stack holds 12 states, more than 8.
\<close>

theorem state_stack_depth_counterexample:
  "h_state_stack (snd (parse_events sample_engine
      [StartArray, StartObject, Key ''key'', StartObject, Key ''raw'', String ''ab'', EndObject,
       Key ''clustering_elements'', StartArray, StartObject,
       Key ''type'', String ''clustering-row'',
       Key ''columns'', StartObject, Key ''v'', StartObject, Key ''is_live'']
      new_handler))
   = [before_bool, in_column, before_column, before_column_key, before_clustering_columns,
      in_clustering_row, in_clustering_element, before_clustering_element,
      before_clustering_elements, in_partition, before_partition, start] \<and>
   length [before_bool, in_column, before_column, before_column_key, before_clustering_columns,
      in_clustering_row, in_clustering_element, before_clustering_element,
      before_clustering_elements, in_partition, before_partition, start] = 12"
  by (simp add: handler_defs sample_engine_def sample_column_def Let_def)

section \<open>Properties of the parser's retire actions\<close>

text \<open>
  What does hold of \<^verbatim>\<open>finalize_column\<close>, on what the handler holds when the column
  object ends: it succeeds only when \<open>is_live\<close> and \<open>timestamp\<close> are there, a live cell
  has a value, \<^verbatim>\<open>_ttl\<close> and \<^verbatim>\<open>_expiry\<close> are both set or both empty, and a dead cell has
  a deletion time; it then applies to the row the cell these parts describe. When one
  of the requirements fails the function reports a structural error, returns false,
  and the row is as it was. The \<^verbatim>\<open>_ttl\<close> and \<^verbatim>\<open>_expiry\<close> it reads are the handler's, which
  need not be those of the column object that ends.
\<close>

lemma finalize_column_checks_scratch:
  assumes "h_column h = Some c"
  shows "(fst (finalize_column env h) \<longrightarrow>
            cell_fields_ok c (h_ttl h) (h_expiry h) \<and>
            (\<exists>d r cell. col_def c = Some d \<and> h_row h = Some r \<and>
               composed_cell c (h_ttl h) (h_expiry h) = Some cell \<and>
               h_row (snd (finalize_column env h)) = Some (row_apply env (col_id d) (atomic cell) r))) \<and>
         (\<not> cell_fields_ok c (h_ttl h) (h_expiry h) \<longrightarrow>
            \<not> fst (finalize_column env h) \<and>
            h_row (snd (finalize_column env h)) = h_row h \<and>
            (\<exists>msg. h_abort (snd (finalize_column env h)) = Some (runtime_error msg)))"
proof (cases "h_row h")
  case None
  then show ?thesis by (simp add: finalize_column_def error_def)
next
  case (Some r)
  show ?thesis
    using assms
    by (simp add: finalize_column_def Some deref_def error_def bad_optional_access_def
        cell_fields_ok_def composed_cell_def split: option.splits bool.splits)
qed

text \<open>
  C7 at a concrete document: a partition with two clustering rows. The column of the
  first row is a dead cell that also carries \<^verbatim>\<open>"ttl": "5s"\<close> and
  \<^verbatim>\<open>"expiry": "2030-01-01 00:00:00"\<close>; the column of the second row is a live cell with
  \<^verbatim>\<open>"ttl": "7s"\<close> and no expiry. The dead branch of \<^verbatim>\<open>finalize_column\<close> leaves \<^verbatim>\<open>_ttl\<close> and
  \<^verbatim>\<open>_expiry\<close> set, so at the end of the second column object the expiry of the first is
  still there: the parse succeeds and the second row holds a live cell with ttl 7 and
  the expiry of the dead cell, although its column object has a ttl without an
  expiry. The same second row alone in the partition is refused with the structural
  error on ttl and expiry, and no row is emitted.
\<close>

theorem stale_expiry_in_live_cell:
  "(let (ok, h) = parse_events clock_engine
      [StartArray, StartObject, Key ''key'', StartObject, Key ''raw'', String ''ab'', EndObject,
       Key ''clustering_elements'', StartArray,
       StartObject, Key ''type'', String ''clustering-row'',
         Key ''key'', StartObject, Key ''raw'', String ''c1'', EndObject,
         Key ''columns'', StartObject, Key ''v'', StartObject,
           Key ''is_live'', Bool False, Key ''timestamp'', Uint 1,
           Key ''deletion_time'', String ''1970-01-01 00:00:00'',
           Key ''ttl'', String ''5s'', Key ''expiry'', String ''2030-01-01 00:00:00'',
         EndObject, EndObject, EndObject,
       StartObject, Key ''type'', String ''clustering-row'',
         Key ''key'', StartObject, Key ''raw'', String ''c2'', EndObject,
         Key ''columns'', StartObject, Key ''v'', StartObject,
           Key ''is_live'', Bool True, Key ''timestamp'', Uint 2, Key ''ttl'', String ''7s'',
           Key ''value'', String ''x'',
         EndObject, EndObject, EndObject,
       EndArray, EndObject, EndArray] new_handler
    in (ok, h_abort h, h_queue h))
   = (True, None,
      [Some (Partition_start \<lparr>ps_key = \<lparr>dk_token = 0, dk_key = ''ab''\<rparr>,
                               partition_tombstone = empty_tombstone\<rparr>),
       Some (Clustering_row \<lparr>cr_key = ''c1'',
               cr_tomb = \<lparr>regular = empty_tombstone, shadowable = empty_tombstone\<rparr>,
               cr_marker = missing_marker, cr_cells = [(0, atomic (dead_cell 1 0))]\<rparr>),
       Some (Clustering_row \<lparr>cr_key = ''c2'',
               cr_tomb = \<lparr>regular = empty_tombstone, shadowable = empty_tombstone\<rparr>,
               cr_marker = missing_marker,
               cr_cells = [(0, atomic (live_cell 2 ''x'' (Some (7, 1893456000))))]\<rparr>),
       Some Partition_end, None]) \<and>
   (let (ok, h) = parse_events clock_engine
      [StartArray, StartObject, Key ''key'', StartObject, Key ''raw'', String ''ab'', EndObject,
       Key ''clustering_elements'', StartArray,
       StartObject, Key ''type'', String ''clustering-row'',
         Key ''key'', StartObject, Key ''raw'', String ''c2'', EndObject,
         Key ''columns'', StartObject, Key ''v'', StartObject,
           Key ''is_live'', Bool True, Key ''timestamp'', Uint 2, Key ''ttl'', String ''7s'',
           Key ''value'', String ''x'',
         EndObject, EndObject, EndObject,
       EndArray, EndObject, EndArray] new_handler
    in (ok, h_abort h, h_queue h))
   = (False,
      Some (runtime_error
        ''failed to finalize cell: ttl and expiry must either be both present or both missing''),
      [Some (Partition_start \<lparr>ps_key = \<lparr>dk_token = 0, dk_key = ''ab''\<rparr>,
                               partition_tombstone = empty_tombstone\<rparr>)])"
  by (simp add: handler_defs clock_engine_def sample_engine_def sample_column_def Let_def
      make_row_tombstone_def row_tombstone_tomb_def cxx_div_def)

text \<open>
  C2 at a concrete document, \<^verbatim>\<open>[{"key":{"raw":"ab"}}]\<close>: a partition that is only a key.
  Whatever the engine, when the key decodes the parser emits a partition end and the
  end of the stream and nothing else: retiring \<open>in_partition\<close> does not emit the
  partition start that is still due. (When the key does not decode the parse fails
  before anything is emitted.)
\<close>

theorem key_only_partition:
  "h_queue (snd (parse_events env
      [StartArray, StartObject, Key ''key'', StartObject, Key ''raw'', String ''ab'', EndObject,
       EndObject, EndArray] new_handler))
   = (case from_hex env ''ab'' of None \<Rightarrow> [] | Some raw \<Rightarrow> [Some Partition_end, None])"
proof (cases "from_hex env ''ab''")
  case None
  then show ?thesis by (simp add: handler_defs Let_def)
next
  case (Some raw)
  then show ?thesis by (simp add: handler_defs Let_def)
qed

text \<open>
  What does hold of the weight of a range tombstone change, on the 64-bit value the
  handler has stored: \<^verbatim>\<open>parse_bound_weight\<close> takes -1, 0 and 1 and refuses every other
  value, and \<^verbatim>\<open>finalize_range_tombstone_change\<close> refuses the weight 0 and emits
  nothing.
\<close>

lemma parse_bound_weight_accepts:
  assumes "h_integer h = Some i"
  shows "fst (parse_bound_weight h) = (i = - 1 \<or> i = 0 \<or> i = 1)"
  using assms by (simp add: parse_bound_weight_def deref_def error_def)

lemma finalize_range_tombstone_change_refuses_equal:
  assumes "h_bound_weight h = Some equal"
  shows "\<not> fst (finalize_range_tombstone_change h) \<and>
         h_queue (snd (finalize_range_tombstone_change h)) = h_queue h"
  using assms by (simp add: finalize_range_tombstone_change_def error_def)

text \<open>
  C6 at a concrete document: a range tombstone change with
  \<^verbatim>\<open>"weight": 18446744073709551615\<close>. The reader reports the number as \<^verbatim>\<open>Uint64\<close>; the
  handler stores it in its \<^verbatim>\<open>int64_t\<close>, where it reads as -1, and the fragment is
  emitted with the weight before_all_prefixed instead of being refused.
\<close>

theorem weight_uint64_max_accepted:
  "parse_events sample_engine
      [StartArray, StartObject, Key ''key'', StartObject, Key ''raw'', String ''ab'', EndObject,
       Key ''clustering_elements'', StartArray, StartObject,
       Key ''type'', String ''range-tombstone-change'',
       Key ''weight'', Uint64 18446744073709551615,
       Key ''tombstone'', StartObject, EndObject, EndObject]
      new_handler
   = (True, new_handler\<lparr>h_queue := [Some (Partition_start \<lparr>ps_key = \<lparr>dk_token = 0, dk_key = ''ab''\<rparr>, partition_tombstone = empty_tombstone\<rparr>),
        Some (Range_tombstone_change \<lparr>rtc_position = \<lparr>get_bound_weight = before_all_prefixed, pos_key = Some []\<rparr>,
                 rtc_tombstone = empty_tombstone\<rparr>)],
       h_state_stack := [before_clustering_element, before_clustering_elements, in_partition, before_partition, start],
       h_key := ''tombstone'', h_partition_start_emited := True, h_row := Some []\<rparr>)"
  by (simp add: handler_defs sample_engine_def Let_def make_row_tombstone_def row_tombstone_tomb_def)


section \<open>Properties of the structured dumper\<close>

lemma keys_at_depth_members:
  assumes "\<And>m rest. m \<in> set members \<Longrightarrow>
             keys_at_depth (Suc d) (events_of (snd m) @ rest) = keys_at_depth (Suc d) rest"
  shows "keys_at_depth (Suc d) (concat (map (\<lambda>m. Key (fst m) # events_of (snd m)) members) @ rest)
         = (if d = 0 then map fst members else []) @ keys_at_depth (Suc d) rest"
  using assms
proof (induction members)
  case Nil
  then show ?case by simp
next
  case (Cons m members)
  have tail: "keys_at_depth (Suc d) (concat (map (\<lambda>m. Key (fst m) # events_of (snd m)) members) @ rest)
         = (if d = 0 then map fst members else []) @ keys_at_depth (Suc d) rest"
    using Cons.IH Cons.prems by simp
  have hd: "keys_at_depth (Suc d) (events_of (snd m) @ r) = keys_at_depth (Suc d) r" for r
    using Cons.prems [of m r] by simp
  show ?case using hd tail by (cases "d = 0") simp_all
qed

lemma keys_at_depth_elements:
  assumes "\<And>v rest. v \<in> set elements \<Longrightarrow>
             keys_at_depth (Suc d) (events_of v @ rest) = keys_at_depth (Suc d) rest"
  shows "keys_at_depth (Suc d) (concat (map events_of elements) @ rest) = keys_at_depth (Suc d) rest"
  using assms
proof (induction elements)
  case Nil
  then show ?case by simp
next
  case (Cons v elements)
  have tail: "keys_at_depth (Suc d) (concat (map events_of elements) @ rest) = keys_at_depth (Suc d) rest"
    using Cons.IH Cons.prems by simp
  have hd: "keys_at_depth (Suc d) (events_of v @ r) = keys_at_depth (Suc d) r" for r
    using Cons.prems [of v r] by simp
  show ?case by (simp add: hd tail)
qed

lemma keys_at_depth_value:
  "0 < d \<Longrightarrow> keys_at_depth d (events_of v @ rest) = keys_at_depth d rest"
proof (induction v arbitrary: d rest)
  case (JObject members)
  have inner: "keys_at_depth (Suc d) (events_of (snd m) @ r) = keys_at_depth (Suc d) r"
    if "m \<in> set members" for m r
  proof -
    have "snd m \<in> Basic_BNFs.snds m" by (cases m) simp
    then show ?thesis using JObject.IH [OF that, of "snd m" "Suc d" r] by simp
  qed
  show ?case
    using JObject.prems keys_at_depth_members [of members d "EndObject # rest", OF inner]
    by simp
next
  case (JArray elements)
  have inner: "keys_at_depth (Suc d) (events_of v @ r) = keys_at_depth (Suc d) r"
    if "v \<in> set elements" for v r
    using JArray.IH [OF that, of "Suc d" r] by simp
  show ?case
    using JArray.prems keys_at_depth_elements [of elements d "EndArray # rest", OF inner]
    by simp
qed simp_all

lemma member_keys_object: "member_keys (events_of (JObject members)) = map fst members"
proof -
  have "keys_at_depth (Suc 0) (events_of (snd m) @ r) = keys_at_depth (Suc 0) r" for m :: "string \<times> json" and r
    by (rule keys_at_depth_value) simp
  then have "keys_at_depth (Suc 0) (concat (map (\<lambda>m. Key (fst m) # events_of (snd m)) members) @ [EndObject])
         = map fst members @ keys_at_depth (Suc 0) [EndObject]"
    using keys_at_depth_members [of members 0 "[EndObject]"] by simp
  then show ?thesis by (simp add: member_keys_def)
qed

text \<open>
  C10: the object that \<^verbatim>\<open>write(const clustering_row&)\<close> writes has the member
  \<open>shadowable_tombstone\<close> exactly when it has the member \<open>tombstone\<close>, and it has them
  exactly when the row tombstone is not empty.
\<close>

theorem clustering_row_tombstone_keys:
  "(''shadowable_tombstone'' \<in> set (member_keys (events_of (write_clustering_row env cr))))
     = (''tombstone'' \<in> set (member_keys (events_of (write_clustering_row env cr)))) \<and>
   (''tombstone'' \<in> set (member_keys (events_of (write_clustering_row env cr))))
     = row_tombstone_bool (cr_tomb cr)"
  by (cases "row_tombstone_bool (cr_tomb cr)"; cases "is_missing (cr_marker cr)")
     (simp_all add: write_clustering_row_def member_keys_object del: events_of.simps)


section \<open>Dump and parse\<close>

text \<open>
  C1 at a concrete stream: one partition with a key, no tombstone and no rows, which
  \<^verbatim>\<open>dump-data\<close> writes as \<^verbatim>\<open>[{"key":{...}}]\<close>. Parsing that dump gives back the partition
  end alone (or fails, when the key does not decode), never the stream that was
  dumped: the partition start is lost, for every engine.
\<close>

theorem round_trip_key_only_partition:
  "h_queue (snd (parse_events env
      (dump_sstable env
         [Partition_start \<lparr>ps_key = \<lparr>dk_token = t, dk_key = k\<rparr>, partition_tombstone = empty_tombstone\<rparr>,
          Partition_end])
      new_handler))
   = (case from_hex env (to_hex env k) of None \<Rightarrow> [] | Some raw \<Rightarrow> [Some Partition_end, None]) \<and>
   h_queue (snd (parse_events env
      (dump_sstable env
         [Partition_start \<lparr>ps_key = \<lparr>dk_token = t, dk_key = k\<rparr>, partition_tombstone = empty_tombstone\<rparr>,
          Partition_end])
      new_handler))
   \<noteq> [Some (Partition_start \<lparr>ps_key = \<lparr>dk_token = t, dk_key = k\<rparr>, partition_tombstone = empty_tombstone\<rparr>),
       Some Partition_end, None]"
proof -
  have d: "dump_sstable env [Partition_start \<lparr>ps_key = \<lparr>dk_token = t, dk_key = k\<rparr>, partition_tombstone = empty_tombstone\<rparr>, Partition_end]
   = [StartArray, StartObject, Key ''key'', StartObject, Key ''token'', String (token_text env t),
      Key ''raw'', String (to_hex env k), Key ''value'', String (partition_key_text env k), EndObject,
      EndObject, EndArray]"
    by (simp add: dump_sstable_def consume_reader_def json_dumper_consumer_def paused_def
      consumer_wrapper_def put_def PartitionKey_def)
  have p: "h_queue (snd (parse_events env
      [StartArray, StartObject, Key ''key'', StartObject, Key ''token'', String tok,
      Key ''raw'', String hex, Key ''value'', String shown, EndObject,
      EndObject, EndArray] new_handler))
      = (case from_hex env hex of None \<Rightarrow> [] | Some raw \<Rightarrow> [Some Partition_end, None])" for tok hex shown
  proof (cases "from_hex env hex")
    case None
    then show ?thesis by (simp add: handler_defs Let_def)
  next
    case (Some raw)
    then show ?thesis by (simp add: handler_defs Let_def)
  qed
  show ?thesis
    unfolding d p by (simp split: option.splits)
qed


end
